theory Spec2Isabelle
  imports Complex_Main
begin

section \<open>Types of the host language\<close>

text \<open>
  The header \<^verbatim>\<open>strong_alias.h\<close> is a compile-time mechanism: its code consists of
  constraints (\<^verbatim>\<open>requires\<close> clauses), \<^verbatim>\<open>explicit\<close>, \<^verbatim>\<open>noexcept\<close> and
  \<^verbatim>\<open>= delete\<close> specifiers, and one-line bodies. The constraints are predicates on
  types, so types are data here. A type is given by its primary category, as the
  \<^verbatim>\<open><type_traits>\<close> queries of the header see it. An identity marker
  (the template parameter \<^verbatim>\<open>Name\<close>) is identified by its name. Of the
  cv-qualifiers only \<^verbatim>\<open>const\<close> is represented.

  The repository holds three versions of the header. The definitions follow the
  last one, \<^verbatim>\<open>strong_alias.h\<close>; the increment and decrement operators are given
  for all three, where they differ.
\<close>

type_synonym name = string

datatype ctype =
    Void
  | Nullptr_t
  | Integral string
  | Floating string
  | Enum string
  | Pointer ctype
  | Member_pointer string
  | Array ctype
  | Function_type string
  | Union string
  | Class string bool "ctype list"
  | Is_alias_t
  | Alias_name name
  | Alias ctype name
  | Const ctype
  | LRef ctype
  | RRef ctype

text \<open>
  \<open>Class c final bases\<close> is a class or struct declared outside the header, with its
  \<^verbatim>\<open>final\<close> specifier and its direct bases. \<open>Is_alias_t\<close>, \<open>Alias_name n\<close> and
  \<open>Alias T n\<close> are the header's own \<^verbatim>\<open>is_alias_t\<close>, \<^verbatim>\<open>alias_name<Name>\<close> and
  \<^verbatim>\<open>alias<T, Name>\<close>.
\<close>

fun remove_reference_t :: "ctype \<Rightarrow> ctype" where
  "remove_reference_t (LRef T) = T"
| "remove_reference_t (RRef T) = T"
| "remove_reference_t T = T"

fun remove_cv_t :: "ctype \<Rightarrow> ctype" where
  "remove_cv_t (Const T) = remove_cv_t T"
| "remove_cv_t T = T"

text \<open>\<^verbatim>\<open>template<typename T> using rm_cvref_t = std::remove_cvref_t<T>;\<close>\<close>

definition rm_cvref_t :: "ctype \<Rightarrow> ctype" where
  "rm_cvref_t T = remove_cv_t (remove_reference_t T)"

fun is_lvalue_reference_v :: "ctype \<Rightarrow> bool" where
  "is_lvalue_reference_v (LRef T) = True"
| "is_lvalue_reference_v T = False"

fun is_rvalue_reference_v :: "ctype \<Rightarrow> bool" where
  "is_rvalue_reference_v (RRef T) = True"
| "is_rvalue_reference_v T = False"

fun is_const_v :: "ctype \<Rightarrow> bool" where
  "is_const_v (Const T) = True"
| "is_const_v T = False"

text \<open>
  \<^verbatim>\<open>std::is_scalar_v\<close>: arithmetic types, enumerations, pointers, pointers to
  members and \<^verbatim>\<open>std::nullptr_t\<close>, with or without cv-qualifiers.
\<close>

fun is_scalar_v :: "ctype \<Rightarrow> bool" where
  "is_scalar_v Nullptr_t = True"
| "is_scalar_v (Integral s) = True"
| "is_scalar_v (Floating s) = True"
| "is_scalar_v (Enum s) = True"
| "is_scalar_v (Pointer T) = True"
| "is_scalar_v (Member_pointer s) = True"
| "is_scalar_v (Const T) = is_scalar_v T"
| "is_scalar_v T = False"

text \<open>\<^verbatim>\<open>std::is_class_v\<close>: non-union class types, with or without cv-qualifiers.\<close>

fun is_class_v :: "ctype \<Rightarrow> bool" where
  "is_class_v (Class c f bs) = True"
| "is_class_v Is_alias_t = True"
| "is_class_v (Alias_name n) = True"
| "is_class_v (Alias T n) = True"
| "is_class_v (Const T) = is_class_v T"
| "is_class_v T = False"

text \<open>
  \<^verbatim>\<open>std::is_final_v\<close>. The three structs of the header are declared without
  \<^verbatim>\<open>final\<close>.
\<close>

fun is_final_v :: "ctype \<Rightarrow> bool" where
  "is_final_v (Class c f bs) = f"
| "is_final_v (Const T) = is_final_v T"
| "is_final_v T = False"

section \<open>Category selection\<close>

text \<open>
  The primary template \<^verbatim>\<open>template<typename T, typename Name> struct alias;\<close> is
  declared and never defined. Two partial specialisations define it:
  \<^verbatim>\<open>requires std::is_scalar_v<T>\<close> (a private member \<^verbatim>\<open>T value\<close>), and
  \<^verbatim>\<open>requires (std::is_class_v<T> and not std::is_final_v<T>)\<close> (a base class
  \<^verbatim>\<open>T\<close>). \<open>matching_specialisations\<close> lists those whose constraint holds, in the
  order of the header.
\<close>

datatype body = Composition | Inheritance

definition matching_specialisations :: "ctype \<Rightarrow> body list" where
  "matching_specialisations T =
     (if is_scalar_v T then [Composition] else []) @
     (if is_class_v T \<and> \<not> is_final_v T then [Inheritance] else [])"

text \<open>
  What instantiating \<^verbatim>\<open>alias<T, Name>\<close> gives: the one matching specialisation;
  the undefined primary template when none matches, an incomplete type of which no
  object can be defined and from which no struct can derive; an ambiguity when
  several match.
\<close>

datatype alias_instance = Selected body | Incomplete_type | Ambiguous_specialisation

definition alias_body :: "ctype \<Rightarrow> alias_instance" where
  "alias_body T =
     (case matching_specialisations T of
        [] \<Rightarrow> Incomplete_type
      | [b] \<Rightarrow> Selected b
      | _ \<Rightarrow> Ambiguous_specialisation)"

section \<open>The alias-identity trait\<close>

text \<open>
  \<^verbatim>\<open>std::is_base_of_v<Base, Derived>\<close>: \<open>Derived\<close> is the class \<open>Base\<close> or derives
  from it; cv-qualifiers of \<open>Derived\<close> are ignored. The base classes of the header's
  structs are those of their declarations:
  \<^verbatim>\<open>struct alias_name : is_alias_t\<close>,
  \<^verbatim>\<open>struct alias<T, Name> : alias_name<Name>\<close> for the composition body and
  \<^verbatim>\<open>struct alias<T, Name> : alias_name<Name>, T\<close> for the inheritance body.
\<close>

fun is_base_of_v :: "ctype \<Rightarrow> ctype \<Rightarrow> bool" where
  "is_base_of_v B (Class c f bs) = (B = Class c f bs \<or> list_ex (is_base_of_v B) bs)"
| "is_base_of_v B Is_alias_t = (B = Is_alias_t)"
| "is_base_of_v B (Alias_name n) = (B = Alias_name n \<or> B = Is_alias_t)"
| "is_base_of_v B (Alias T n) =
     (B = Alias T n \<or> B = Alias_name n \<or> B = Is_alias_t \<or>
      (alias_body T = Selected Inheritance \<and> is_base_of_v B T))"
| "is_base_of_v B (Const D) = is_base_of_v B D"
| "is_base_of_v B D = False"

text \<open>
  \<^verbatim>\<open>template<typename Arg>
  concept is_alias = std::is_base_of_v<is_alias_t, rm_cvref_t<Arg>>;
  template<typename Arg, typename Name>
  concept is_same_alias = is_alias<Arg> && std::is_base_of_v<alias_name<Name>, rm_cvref_t<Arg>>;
  template<typename Arg, typename Name>
  concept is_different_alias = is_alias<Arg> && !std::is_base_of_v<alias_name<Name>, rm_cvref_t<Arg>>;\<close>
\<close>

definition is_alias :: "ctype \<Rightarrow> bool" where
  "is_alias ArgT = is_base_of_v Is_alias_t (rm_cvref_t ArgT)"

definition is_same_alias :: "ctype \<Rightarrow> name \<Rightarrow> bool" where
  "is_same_alias ArgT Name =
     (is_alias ArgT \<and> is_base_of_v (Alias_name Name) (rm_cvref_t ArgT))"

definition is_different_alias :: "ctype \<Rightarrow> name \<Rightarrow> bool" where
  "is_different_alias ArgT Name =
     (is_alias ArgT \<and> \<not> is_base_of_v (Alias_name Name) (rm_cvref_t ArgT))"

text \<open>
  The declaration macro:
  \<^verbatim>\<open>#define STRONG_ALIAS(NAME, ...) struct NAME final : strong::alias<__VA_ARGS__,NAME>
  { using strong::alias<__VA_ARGS__,NAME>::alias; }\<close>
\<close>

definition STRONG_ALIAS :: "name \<Rightarrow> ctype \<Rightarrow> ctype" where
  "STRONG_ALIAS NAME T = Class NAME True [Alias T NAME]"

text \<open>
  An alias type over \<open>T\<close> with identity \<open>Name\<close> is the template specialisation itself
  or the struct that the macro declares.
\<close>

definition declared :: "ctype \<Rightarrow> ctype \<Rightarrow> name \<Rightarrow> bool" where
  "declared A T Name = (A = Alias T Name \<or> A = STRONG_ALIAS Name T)"

text \<open>
  The classification of a right-hand operand relative to an identity, in the words of
  the specification: not an alias, the same alias, or a different alias.
\<close>

datatype operand_class = Not_an_alias | Same_alias | Different_alias

definition classify :: "name \<Rightarrow> ctype \<Rightarrow> operand_class" where
  "classify Name ArgT =
     (if \<not> is_base_of_v Is_alias_t (rm_cvref_t ArgT) then Not_an_alias
      else if is_base_of_v (Alias_name Name) (rm_cvref_t ArgT) then Same_alias
      else Different_alias)"

section \<open>Constructors\<close>

text \<open>
  An argument expression is given by its value category and its type. Both constructor
  templates take forwarding references (\<^verbatim>\<open>Args&&...\<close>, \<^verbatim>\<open>Arg&&\<close>): template
  argument deduction gives \<^verbatim>\<open>U&\<close> for an lvalue of type \<^verbatim>\<open>U\<close> and \<^verbatim>\<open>U\<close> itself
  for an rvalue.
\<close>

datatype value_category = Lvalue | Rvalue

type_synonym expr = "value_category \<times> ctype"

fun deduce_forwarding :: "expr \<Rightarrow> ctype" where
  "deduce_forwarding (Lvalue, U) = LRef U"
| "deduce_forwarding (Rvalue, U) = U"

text \<open>
  The type of an expression is never a reference, and \<^verbatim>\<open>const\<close> does not apply to
  a reference: the operand types that the language can present.
\<close>

fun object_type :: "ctype \<Rightarrow> bool" where
  "object_type (LRef U) = False"
| "object_type (RRef U) = False"
| "object_type (Const U) = object_type U"
| "object_type U = True"

text \<open>
  The constructors of an alias: the two templates of each body and the copy and move
  constructors, which the language declares implicitly (a constructor template is
  never a copy or move constructor) and which the header does not write. These are
  the constructors of the specialisation \<^verbatim>\<open>alias<T, Name>\<close> itself, and the object
  constructed is an \<^verbatim>\<open>alias<T, Name>\<close>. The struct that the macro declares has
  constructors of its own besides the two templates that it inherits; they are given
  in the section on that struct.

  Composition body:
  \<^verbatim>\<open>template<typename... Args> requires (is_alias<Args>&& ...)
  explicit constexpr alias(Args&&... args) noexcept(...)
      : value{ std::forward<Args>(args)... } { static_assert(sizeof...(Args) <= 1); };
  template<typename Arg> requires(!is_alias<Arg>)
  constexpr alias(Arg&& arg) noexcept(...) : value{ std::forward<Arg>(arg) } {}\<close>

  Inheritance body:
  \<^verbatim>\<open>template<typename... Args>
  explicit constexpr alias(Args&&... args) noexcept(...) : T(std::forward<Args>(args)...) {}
  template<typename Arg> requires (not is_alias<rm_cvref_t<Arg>> or is_same_alias<rm_cvref_t<Arg>,Name>)
  constexpr alias(Arg&& arg) noexcept(...) : T(std::forward<Arg>(arg)) {}\<close>
\<close>

datatype ctor = Variadic_ctor | Converting_ctor | Copy_or_move_ctor

fun ctor_explicit :: "ctor \<Rightarrow> bool" where
  "ctor_explicit Variadic_ctor = True"
| "ctor_explicit Converting_ctor = False"
| "ctor_explicit Copy_or_move_ctor = False"

text \<open>
  Whether a constructor accepts the deduced argument types: the \<^verbatim>\<open>requires\<close> clause
  of a template (and its number of parameters); for the copy and move constructors,
  that the argument is an object of the alias type itself or of a class derived
  from it.
\<close>

fun ctor_requires :: "body \<Rightarrow> ctype \<Rightarrow> name \<Rightarrow> ctor \<Rightarrow> ctype list \<Rightarrow> bool" where
  "ctor_requires Composition T Name Variadic_ctor Args = list_all is_alias Args"
| "ctor_requires Composition T Name Converting_ctor Args =
     (case Args of [ArgT] \<Rightarrow> \<not> is_alias ArgT | _ \<Rightarrow> False)"
| "ctor_requires Inheritance T Name Variadic_ctor Args = True"
| "ctor_requires Inheritance T Name Converting_ctor Args =
     (case Args of
        [ArgT] \<Rightarrow> \<not> is_alias (rm_cvref_t ArgT) \<or> is_same_alias (rm_cvref_t ArgT) Name
      | _ \<Rightarrow> False)"
| "ctor_requires b T Name Copy_or_move_ctor Args =
     (case Args of [ArgT] \<Rightarrow> is_base_of_v (Alias T Name) (rm_cvref_t ArgT) | _ \<Rightarrow> False)"

text \<open>
  The \<^verbatim>\<open>noexcept\<close> specifications, the same in both bodies:
  \<^verbatim>\<open>noexcept(((std::is_lvalue_reference_v<Args>&& ...) && std::is_nothrow_copy_constructible_v<T>)
        or ((std::is_rvalue_reference_v<Args> && ...) && std::is_nothrow_move_constructible_v<T>))\<close>
  for the variadic constructor and
  \<^verbatim>\<open>noexcept((std::is_lvalue_reference_v<Arg>&& std::is_nothrow_copy_constructible_v<T>)
        or (std::is_rvalue_reference_v<Arg> && std::is_nothrow_move_constructible_v<T>))\<close>
  for the converting one. \<open>nothrow_copy\<close> and \<open>nothrow_move\<close> are the values of the two
  traits of \<open>T\<close>. The implicitly declared copy and move constructors take the exception
  specification of the copy or move of \<open>T\<close> that they perform.
\<close>

fun ctor_noexcept :: "ctor \<Rightarrow> bool \<Rightarrow> bool \<Rightarrow> ctype list \<Rightarrow> bool" where
  "ctor_noexcept Variadic_ctor nothrow_copy nothrow_move Args =
     ((list_all is_lvalue_reference_v Args \<and> nothrow_copy) \<or>
      (list_all is_rvalue_reference_v Args \<and> nothrow_move))"
| "ctor_noexcept Converting_ctor nothrow_copy nothrow_move Args =
     (case Args of
        [ArgT] \<Rightarrow> (is_lvalue_reference_v ArgT \<and> nothrow_copy) \<or>
                 (is_rvalue_reference_v ArgT \<and> nothrow_move)
      | _ \<Rightarrow> False)"
| "ctor_noexcept Copy_or_move_ctor nothrow_copy nothrow_move Args =
     (case Args of
        [ArgT] \<Rightarrow> if is_lvalue_reference_v ArgT then nothrow_copy else nothrow_move
      | _ \<Rightarrow> False)"

text \<open>
  Direct-initialisation (\<^verbatim>\<open>A a(x);\<close>, \<^verbatim>\<open>A a{x};\<close>, \<^verbatim>\<open>A a;\<close>) considers every
  constructor; copy-initialisation (\<^verbatim>\<open>A a = x;\<close>, passing or returning by value), which
  is what an implicit conversion to the alias is, considers the constructors that are
  not \<^verbatim>\<open>explicit\<close>. Only constructors are looked at: a conversion function to the
  alias that the class of an argument might declare is outside the header.
\<close>

datatype init_kind = Direct_init | Copy_init

text \<open>
  The constructors of \<^verbatim>\<open>alias<T, Name>\<close> that an initialisation of an
  \<^verbatim>\<open>alias<T, Name>\<close> considers and that accept the arguments.
\<close>

definition viable_ctors :: "init_kind \<Rightarrow> ctype \<Rightarrow> name \<Rightarrow> expr list \<Rightarrow> ctor list" where
  "viable_ctors k T Name args =
     (case alias_body T of
        Selected b \<Rightarrow>
          filter (\<lambda>c. (k = Direct_init \<or> \<not> ctor_explicit c) \<and>
                      ctor_requires b T Name c (map deduce_forwarding args))
            [Variadic_ctor, Converting_ctor, Copy_or_move_ctor]
      | _ \<Rightarrow> [])"

text \<open>
  The best viable constructor. A copy or move constructor is preferred to a template
  of the same parameter type, which is the case for an rvalue or a const lvalue of the
  alias type itself; for a non-const lvalue the templates, deduced as \<^verbatim>\<open>alias&\<close>, bind
  better than \<^verbatim>\<open>const alias&\<close>. Of the two templates the one with a single
  parameter is the more specialised.
\<close>

definition select_ctor :: "init_kind \<Rightarrow> ctype \<Rightarrow> name \<Rightarrow> expr list \<Rightarrow> ctor option" where
  "select_ctor k T Name args =
     (let v = viable_ctors k T Name args in
      if Copy_or_move_ctor \<in> set v \<and>
         list_all (\<lambda>(c, U). remove_cv_t U = Alias T Name \<and> (c = Rvalue \<or> U \<noteq> remove_cv_t U)) args
      then Some Copy_or_move_ctor
      else if Converting_ctor \<in> set v then Some Converting_ctor
      else if Variadic_ctor \<in> set v then Some Variadic_ctor
      else if Copy_or_move_ctor \<in> set v then Some Copy_or_move_ctor
      else None)"

definition construct_noexcept ::
  "bool \<Rightarrow> bool \<Rightarrow> init_kind \<Rightarrow> ctype \<Rightarrow> name \<Rightarrow> expr list \<Rightarrow> bool option" where
  "construct_noexcept nothrow_copy nothrow_move k T Name args =
     map_option (\<lambda>c. ctor_noexcept c nothrow_copy nothrow_move (map deduce_forwarding args))
       (select_ctor k T Name args)"

section \<open>The composition body: the owned value\<close>

text \<open>
  \<^verbatim>\<open>private: T value;\<close> The type \<open>'v\<close> stands for the values of \<open>T\<close>.
\<close>

record 'v scalar_alias =
  value' :: 'v

text \<open>
  What fails at compile time. A rejected program does not build; there is no
  run-time error.
\<close>

datatype compile_error =
    No_matching_function
  | Use_of_deleted_function
  | Static_assertion_failed
  | Ill_formed_initializer

text \<open>
  The bodies of the constructors, on the values that the arguments have once converted
  to \<open>T\<close>. \<^verbatim>\<open>value{ }\<close> with no argument is value-initialisation, which for a scalar
  is zero-initialisation: zero for an arithmetic type, the null pointer value for a
  pointer, both the \<open>0\<close> of the type of values.
  \<^verbatim>\<open>static_assert(sizeof...(Args) <= 1)\<close> rejects two or more arguments.
\<close>

fun ctor_body :: "ctor \<Rightarrow> 'v::zero list \<Rightarrow> compile_error + 'v scalar_alias" where
  "ctor_body Variadic_ctor [] = Inr \<lparr>value' = 0\<rparr>"
| "ctor_body Variadic_ctor [x] = Inr \<lparr>value' = x\<rparr>"
| "ctor_body Variadic_ctor xs = Inl Static_assertion_failed"
| "ctor_body c [x] = Inr \<lparr>value' = x\<rparr>"
| "ctor_body c xs = Inl No_matching_function"

text \<open>
  \<^verbatim>\<open>constexpr operator T() noexcept { return value; }
  constexpr operator T() const noexcept { return value; }\<close>
\<close>

definition operator_T :: "'v scalar_alias \<Rightarrow> 'v" where
  "operator_T a = value' a"

text \<open>
  The scalar type that an operand gives: a scalar is taken as it is, a
  composition-body alias through its conversion function, which a struct deriving
  from it (the declaration macro's) inherits. No other type gives one; for the
  built-in operators, any other class is taken to have no conversion to a scalar.
\<close>

fun builtin_operand :: "ctype \<Rightarrow> ctype option" where
  "builtin_operand (Alias T n) =
     (if alias_body T = Selected Composition then Some (remove_cv_t T) else None)"
| "builtin_operand (Class c f [Alias T n]) =
     (if alias_body T = Selected Composition then Some (remove_cv_t T) else None)"
| "builtin_operand (Const U) = builtin_operand U"
| "builtin_operand (LRef U) = builtin_operand U"
| "builtin_operand (RRef U) = builtin_operand U"
| "builtin_operand U = (if is_scalar_v U then Some U else None)"

text \<open>
  Constructing a composition-body alias \<^verbatim>\<open>alias<T, Name>\<close> from argument
  expressions. \<open>conv U T\<close> says that an operand of type \<open>U\<close> converts to a \<open>T\<close>
  implicitly and without narrowing, as the braces of \<^verbatim>\<open>value{ ... }\<close> require; it
  is a parameter. A scalar operand and a composition-body alias, which converts
  through its conversion function, are asked about by the scalar type they give; an
  operand of any other type (an array, a function, a class with a conversion
  function of its own) by its own type, without \<^verbatim>\<open>const\<close>. The copy and move
  constructors copy the owned value and convert nothing. Each argument comes with
  its value converted to \<open>T\<close>. Where \<open>T\<close> is not a scalar there is no composition
  body, and none of its constructors.
\<close>

definition initialises :: "(ctype \<Rightarrow> ctype \<Rightarrow> bool) \<Rightarrow> ctype \<Rightarrow> expr \<Rightarrow> bool" where
  "initialises conv T e =
     conv (case builtin_operand (snd e) of Some U \<Rightarrow> U | None \<Rightarrow> rm_cvref_t (snd e))
          (remove_cv_t T)"

definition construct ::
  "(ctype \<Rightarrow> ctype \<Rightarrow> bool) \<Rightarrow> init_kind \<Rightarrow> ctype \<Rightarrow> name \<Rightarrow> (expr \<times> 'v::zero) list
     \<Rightarrow> compile_error + 'v scalar_alias" where
  "construct conv k T Name args =
     (if alias_body T \<noteq> Selected Composition then Inl No_matching_function
      else case select_ctor k T Name (map fst args) of
        None \<Rightarrow> Inl No_matching_function
      | Some c \<Rightarrow>
          if c = Copy_or_move_ctor \<or> list_all (initialises conv T) (map fst args)
          then ctor_body c (map snd args)
          else Inl Ill_formed_initializer)"

section \<open>Increment and decrement\<close>

text \<open>
  Objects live in a memory, so that a returned reference can be told from a returned
  value: a reference to the alias object at an address, a reference to its private
  member \<^verbatim>\<open>value\<close>, a new alias object, or a plain value of \<open>T\<close>.
\<close>

type_synonym addr = nat

type_synonym 'v memory = "addr \<Rightarrow> 'v scalar_alias"

datatype 'v returned =
    Ref_to_alias addr
  | Ref_to_value addr
  | New_alias "'v scalar_alias"
  | Plain_value 'v

datatype incdec = Pre_inc | Pre_dec | Post_inc | Post_dec

text \<open>
  The three header files of the repository, in the order in which they refine one
  another; \<^verbatim>\<open>strong_alias.h\<close> is the last.
\<close>

datatype header = Part_000 | Part_001 | Strong_alias_h

text \<open>
  \<^verbatim>\<open>strong_alias.h\<close>, composition body:
  \<^verbatim>\<open>constexpr alias& operator++()     requires requires(T& a) {++a;} { ++value; return *this; };
  constexpr alias& operator--()     requires requires(T& a) {--a;} { --value; return *this; };
  constexpr alias  operator++(int)  requires requires(T& a) {a++;} { return alias{value++}; };
  constexpr alias  operator--(int)  requires requires(T& a) {a--;} { return alias{value--}; };\<close>

  The two earlier headers, composition body:
  \<^verbatim>\<open>template<typename = std::void_t<decltype(++std::declval<T&>())>>
  T& operator++() { return ++value; };
  template<typename = std::void_t<decltype(--std::declval<T&>())>>
  T& operator--() { return --value; };
  template<typename = std::void_t<decltype(std::declval<T&>()++)>>
  T  operator++(int) { return value++; };
  template<typename = std::void_t<decltype(std::declval<T&>()--)>>
  T  operator--(int) { return value--; };\<close>
\<close>

fun incdec_return_type :: "header \<Rightarrow> incdec \<Rightarrow> ctype \<Rightarrow> name \<Rightarrow> ctype" where
  "incdec_return_type Strong_alias_h Pre_inc T Name = LRef (Alias T Name)"
| "incdec_return_type Strong_alias_h Pre_dec T Name = LRef (Alias T Name)"
| "incdec_return_type Strong_alias_h Post_inc T Name = Alias T Name"
| "incdec_return_type Strong_alias_h Post_dec T Name = Alias T Name"
| "incdec_return_type h Pre_inc T Name = LRef T"
| "incdec_return_type h Pre_dec T Name = LRef T"
| "incdec_return_type h Post_inc T Name = T"
| "incdec_return_type h Post_dec T Name = T"

text \<open>
  \<open>T_op\<close> gives the operators of \<open>T\<close>: \<open>T_op d = Some f\<close> when \<open>T\<close> supports the
  operator \<open>d\<close>, where \<open>f\<close> maps the value of the operand to its value afterwards
  (the prefix and the postfix form step the operand alike), and \<open>None\<close> when it does
  not, in which case the constraint of the alias's operator fails (in the earlier
  headers, its default template argument is ill-formed) and the expression has no
  operator.
\<close>

fun incdec_body :: "header \<Rightarrow> incdec \<Rightarrow> ('v \<Rightarrow> 'v) \<Rightarrow> addr \<Rightarrow> 'v memory
    \<Rightarrow> 'v memory \<times> 'v returned" where
  "incdec_body Strong_alias_h Pre_inc f this m =
     (m(this := \<lparr>value' = f (value' (m this))\<rparr>), Ref_to_alias this)"
| "incdec_body Strong_alias_h Pre_dec f this m =
     (m(this := \<lparr>value' = f (value' (m this))\<rparr>), Ref_to_alias this)"
| "incdec_body Strong_alias_h Post_inc f this m =
     (m(this := \<lparr>value' = f (value' (m this))\<rparr>), New_alias \<lparr>value' = value' (m this)\<rparr>)"
| "incdec_body Strong_alias_h Post_dec f this m =
     (m(this := \<lparr>value' = f (value' (m this))\<rparr>), New_alias \<lparr>value' = value' (m this)\<rparr>)"
| "incdec_body h Pre_inc f this m =
     (m(this := \<lparr>value' = f (value' (m this))\<rparr>), Ref_to_value this)"
| "incdec_body h Pre_dec f this m =
     (m(this := \<lparr>value' = f (value' (m this))\<rparr>), Ref_to_value this)"
| "incdec_body h Post_inc f this m =
     (m(this := \<lparr>value' = f (value' (m this))\<rparr>), Plain_value (value' (m this)))"
| "incdec_body h Post_dec f this m =
     (m(this := \<lparr>value' = f (value' (m this))\<rparr>), Plain_value (value' (m this)))"

definition incdec_expr :: "header \<Rightarrow> (incdec \<Rightarrow> ('v \<Rightarrow> 'v) option) \<Rightarrow> incdec \<Rightarrow> addr \<Rightarrow> 'v memory
    \<Rightarrow> compile_error + 'v memory \<times> 'v returned" where
  "incdec_expr h T_op d this m =
     (case T_op d of
        None \<Rightarrow> Inl No_matching_function
      | Some f \<Rightarrow> Inr (incdec_body h d f this m))"

section \<open>The inheritance body: the inherited sub-object\<close>

text \<open>
  \<^verbatim>\<open>struct alias<T, Name> : alias_name<Name>, T\<close>: the one value an object holds is
  its base-class sub-object of type \<open>T\<close>. Both constructor templates initialise it with
  \<^verbatim>\<open>T(std::forward<Args>(args)...)\<close>, and the copy and move constructors with the
  copy or move constructor of \<open>T\<close>: \<open>T_init\<close> is the initialisation of a \<open>T\<close> from the
  arguments, \<open>None\<close> where \<open>T\<close> has no constructor for them.
\<close>

record 'v class_alias =
  base_T :: 'v


section \<open>The struct of the declaration macro\<close>

text \<open>
  \<^verbatim>\<open>struct NAME final : strong::alias<T,NAME> { using strong::alias<T,NAME>::alias; }\<close>
  declares no constructor. Its using-declaration makes the two constructor templates
  of \<^verbatim>\<open>alias<T, NAME>\<close> constructors of the struct, each as explicit and as
  constrained as it is declared; the copy and move constructors of the base are no
  candidates when an object of the struct is constructed. The language declares for
  the struct a default, a copy and a move constructor of its own, none of them
  explicit.
\<close>

datatype struct_ctor = Implicit_default_ctor | Implicit_copy_or_move_ctor | Inherited ctor

fun struct_ctor_explicit :: "struct_ctor \<Rightarrow> bool" where
  "struct_ctor_explicit (Inherited c) = ctor_explicit c"
| "struct_ctor_explicit c = False"

text \<open>
  An inherited constructor is no candidate for a single argument of a class type
  \<open>P\<close> when the base it comes from is \<open>P\<close> or a base of \<open>P\<close>, and \<open>P\<close> is the
  struct \<open>D\<close> or a base of it: the rule of the language by which an inherited
  constructor never stands in for a copy constructor. For the struct of the macro
  \<open>P\<close> is then the struct itself or \<^verbatim>\<open>alias<T, NAME>\<close>.
\<close>

definition inherited_excluded :: "ctype \<Rightarrow> ctype \<Rightarrow> name \<Rightarrow> ctype list \<Rightarrow> bool" where
  "inherited_excluded D T Name Args =
     (case Args of
        [ArgT] \<Rightarrow> is_base_of_v (Alias T Name) (rm_cvref_t ArgT) \<and>
                 is_base_of_v (rm_cvref_t ArgT) D
      | _ \<Rightarrow> False)"

text \<open>
  Whether a constructor of the struct accepts the deduced argument types. The
  implicit default constructor takes no argument; the implicit copy and move
  constructors take an object of the struct, which is final and has no derived
  class; an inherited template accepts what its \<^verbatim>\<open>requires\<close> clause accepts, unless
  it is excluded.
\<close>

fun struct_ctor_accepts :: "body \<Rightarrow> ctype \<Rightarrow> name \<Rightarrow> struct_ctor \<Rightarrow> ctype list \<Rightarrow> bool" where
  "struct_ctor_accepts b T Name Implicit_default_ctor Args = (Args = [])"
| "struct_ctor_accepts b T Name Implicit_copy_or_move_ctor Args =
     (case Args of [ArgT] \<Rightarrow> rm_cvref_t ArgT = STRONG_ALIAS Name T | _ \<Rightarrow> False)"
| "struct_ctor_accepts b T Name (Inherited c) Args =
     (c \<noteq> Copy_or_move_ctor \<and> ctor_requires b T Name c Args \<and>
      \<not> inherited_excluded (STRONG_ALIAS Name T) T Name Args)"

text \<open>
  The constructors of the struct declared by \<^verbatim>\<open>STRONG_ALIAS(Name, T)\<close> that an
  initialisation of an object of the struct considers and that accept the arguments.
  Where \<^verbatim>\<open>alias<T, Name>\<close> is the undefined primary template the struct cannot be
  declared.
\<close>

definition struct_viable_ctors ::
  "init_kind \<Rightarrow> ctype \<Rightarrow> name \<Rightarrow> expr list \<Rightarrow> struct_ctor list" where
  "struct_viable_ctors k T Name args =
     (case alias_body T of
        Selected b \<Rightarrow>
          filter (\<lambda>c. (k = Direct_init \<or> \<not> struct_ctor_explicit c) \<and>
                      struct_ctor_accepts b T Name c (map deduce_forwarding args))
            [Implicit_default_ctor, Implicit_copy_or_move_ctor,
             Inherited Converting_ctor, Inherited Variadic_ctor]
      | _ \<Rightarrow> [])"

text \<open>
  The best viable constructor of the struct. With no argument the implicit default
  constructor, which is a constructor of the struct itself and no template, is better
  than the inherited variadic template. With one argument of the struct's type no
  inherited constructor is a candidate. Otherwise only inherited ones are viable,
  and of the two templates the one with a single parameter is the more specialised.
  So the first of the list above is the best.
\<close>

definition struct_select_ctor ::
  "init_kind \<Rightarrow> ctype \<Rightarrow> name \<Rightarrow> expr list \<Rightarrow> struct_ctor option" where
  "struct_select_ctor k T Name args =
     (case struct_viable_ctors k T Name args of [] \<Rightarrow> None | c # cs \<Rightarrow> Some c)"

text \<open>
  Constructing an object of the struct. The implicit default constructor
  initialises the base with no argument, which runs the variadic constructor with an
  empty pack; the implicit copy and move constructors copy or move the base; an
  inherited constructor runs as it does in the base. The object holds what its base
  holds: the owned value for a scalar \<open>T\<close>, the sub-object of type \<open>T\<close> for a class.
\<close>

definition struct_construct ::
  "(ctype \<Rightarrow> ctype \<Rightarrow> bool) \<Rightarrow> init_kind \<Rightarrow> ctype \<Rightarrow> name \<Rightarrow> (expr \<times> 'v::zero) list
     \<Rightarrow> compile_error + 'v scalar_alias" where
  "struct_construct conv k T Name args =
     (if alias_body T \<noteq> Selected Composition then Inl No_matching_function
      else case struct_select_ctor k T Name (map fst args) of
        None \<Rightarrow> Inl No_matching_function
      | Some Implicit_default_ctor \<Rightarrow> ctor_body Variadic_ctor (map snd args)
      | Some Implicit_copy_or_move_ctor \<Rightarrow> ctor_body Copy_or_move_ctor (map snd args)
      | Some (Inherited c) \<Rightarrow>
          if list_all (initialises conv T) (map fst args)
          then ctor_body c (map snd args)
          else Inl Ill_formed_initializer)"


section \<open>Binary operators\<close>

datatype binop =
    Assign | Add_assign | Sub_assign | Mul_assign | Div_assign | Mod_assign
  | And_assign | Or_assign | Xor_assign | Shl_assign | Shr_assign
  | Eq | Ne | Ge | Le | Gt | Lt
  | Land | Lor
  | Add | Sub | Mul | Div | Mod

datatype op_kind = Assignment | Comparison | Logical | Arithmetic

fun kind_of :: "binop \<Rightarrow> op_kind" where
  "kind_of Assign = Assignment"
| "kind_of Add_assign = Assignment"
| "kind_of Sub_assign = Assignment"
| "kind_of Mul_assign = Assignment"
| "kind_of Div_assign = Assignment"
| "kind_of Mod_assign = Assignment"
| "kind_of And_assign = Assignment"
| "kind_of Or_assign = Assignment"
| "kind_of Xor_assign = Assignment"
| "kind_of Shl_assign = Assignment"
| "kind_of Shr_assign = Assignment"
| "kind_of Eq = Comparison"
| "kind_of Ne = Comparison"
| "kind_of Ge = Comparison"
| "kind_of Le = Comparison"
| "kind_of Gt = Comparison"
| "kind_of Lt = Comparison"
| "kind_of Land = Logical"
| "kind_of Lor = Logical"
| "kind_of Add = Arithmetic"
| "kind_of Sub = Arithmetic"
| "kind_of Mul = Arithmetic"
| "kind_of Div = Arithmetic"
| "kind_of Mod = Arithmetic"

text \<open>
  The member operator templates of \<^verbatim>\<open>strong_alias.h\<close>. Each takes
  \<^verbatim>\<open>const Arg& arg\<close>, so \<open>ArgT\<close> is deduced as the type of the right-hand operand
  without its \<^verbatim>\<open>const\<close>; the constraints look at \<open>ArgT\<close> through \<open>rm_cvref_t\<close>
  only, so the operand's type can stand for it. A template whose constraint fails
  is no candidate (\<open>None\<close>); one whose constraint holds is a candidate, defined or
  deleted.

  Composition body, for each of the eleven assignment operators
  \<^verbatim>\<open>template<typename Arg> requires(not is_alias<Arg> or is_same_alias<Arg,Name>)
  constexpr alias& operator+=(const Arg& arg)  { value  += arg; return *this; }\<close>
  and for each of the six comparison and the two logical operators
  \<^verbatim>\<open>template<typename Arg> requires is_different_alias<Arg,Name>
  constexpr bool operator ==(const Arg& arg) const = delete;\<close>
  It declares no binary arithmetic operator.

  Inheritance body, for the same eleven assignment operators
  \<^verbatim>\<open>template<typename Arg> requires(not is_alias<Arg> or is_same_alias<Arg,Name>)
  constexpr alias& operator+= (const Arg& arg) { return static_cast<alias&>(T::operator +=(arg)); }\<close>
  and for the comparison and logical operators
  \<^verbatim>\<open>template<typename Arg> requires(not is_alias<Arg> or is_same_alias<Arg,Name>)
  constexpr bool operator ==(const Arg& arg) const { return T::operator==(arg); }\<close>
\<close>

datatype member = Defined | Deleted

fun member_operator :: "body \<Rightarrow> name \<Rightarrow> op_kind \<Rightarrow> ctype \<Rightarrow> member option" where
  "member_operator Composition Name Assignment ArgT =
     (if \<not> is_alias ArgT \<or> is_same_alias ArgT Name then Some Defined else None)"
| "member_operator Composition Name Comparison ArgT =
     (if is_different_alias ArgT Name then Some Deleted else None)"
| "member_operator Composition Name Logical ArgT =
     (if is_different_alias ArgT Name then Some Deleted else None)"
| "member_operator Composition Name Arithmetic ArgT = None"
| "member_operator Inheritance Name Assignment ArgT =
     (if \<not> is_alias ArgT \<or> is_same_alias ArgT Name then Some Defined else None)"
| "member_operator Inheritance Name Comparison ArgT =
     (if \<not> is_alias ArgT \<or> is_same_alias ArgT Name then Some Defined else None)"
| "member_operator Inheritance Name Logical ArgT =
     (if \<not> is_alias ArgT \<or> is_same_alias ArgT Name then Some Defined else None)"
| "member_operator Inheritance Name Arithmetic ArgT = None"

text \<open>
  Overload resolution for \<^verbatim>\<open>l op r\<close>, where \<open>l\<close> has type \<open>L\<close> and \<open>r\<close> type \<open>R\<close>.
  The left operand is an alias when \<open>L\<close> is \<^verbatim>\<open>alias<T, Name>\<close> or a struct that
  derives from it alone and declares no operator, as the struct of the declaration
  macro does: the struct inherits the member operators, except that its implicitly
  declared copy assignment operator hides every inherited \<^verbatim>\<open>operator=\<close>. The
  assignment operators are not \<^verbatim>\<open>const\<close> members, so a const alias has none.
  The member template of an alias is a candidate when its constraint holds; it
  takes both operands as they are, so it is better than any candidate that needs a
  conversion, and if it is deleted the expression is ill-formed. Only for \<^verbatim>\<open>=\<close>
  with a right-hand operand of the very type of the left one is it not selected:
  the implicitly declared copy assignment operator takes the same parameter and,
  not being a template, is preferred. Otherwise:
  \<^item> for \<^verbatim>\<open>=\<close> on an alias, the implicitly declared copy and move assignment
    operators take a right-hand operand that converts implicitly to the class of the
    left one: an object of that class or of a class derived from it, or an operand
    that the constructor template which is not \<^verbatim>\<open>explicit\<close> accepts, unless the
    left operand is a struct deriving from the alias and the inherited template is
    excluded for the operand
    (\<^verbatim>\<open>operator=\<close> is always a member, and that of a base class \<open>T\<close> is hidden);
  \<^item> for an inheritance-body alias on the left, every other operator is whatever \<open>T\<close>
    and its namespace provide and the alias does not hide, which is not decided here;
  \<^item> a compound assignment has no other candidate on a composition-body alias: the
    built-in one needs a modifiable lvalue of a scalar type on its left, which a
    conversion function does not give;
  \<^item> for a composition-body alias or a scalar on the left, a comparison, logical or
    arithmetic operator is the built-in one on the operands converted to scalars,
    if \<open>native op TL TR\<close> says that the language has it; \<open>native\<close> is a parameter.
  A left operand of any other class is outside the header; it is given no operator.
\<close>

datatype selected =
    Member_operator
  | Copy_or_move_assignment
  | Builtin_operator ctype ctype
  | Operator_of_T

fun alias_base :: "ctype \<Rightarrow> (ctype \<times> name) option" where
  "alias_base (Alias T Name) = Some (T, Name)"
| "alias_base (Class c f [Alias T Name]) = Some (T, Name)"
| "alias_base U = None"

definition alias_of :: "ctype \<Rightarrow> (body \<times> ctype \<times> name) option" where
  "alias_of L =
     (case alias_base (rm_cvref_t L) of
        Some (T, Name) \<Rightarrow>
          (case alias_body T of Selected b \<Rightarrow> Some (b, T, Name) | _ \<Rightarrow> None)
      | None \<Rightarrow> None)"

definition converts_implicitly :: "ctype \<Rightarrow> body \<Rightarrow> ctype \<Rightarrow> name \<Rightarrow> ctype \<Rightarrow> bool" where
  "converts_implicitly self b T Name R =
     (is_base_of_v self (rm_cvref_t R) \<or>
      (ctor_requires b T Name Converting_ctor [deduce_forwarding (Lvalue, R)] \<and>
       \<not> (self \<noteq> Alias T Name \<and>
          inherited_excluded self T Name [deduce_forwarding (Lvalue, R)])))"

definition builtin_candidate ::
  "(binop \<Rightarrow> ctype \<Rightarrow> ctype \<Rightarrow> bool) \<Rightarrow> binop \<Rightarrow> ctype \<Rightarrow> ctype \<Rightarrow> compile_error + selected" where
  "builtin_candidate native op L R =
     (case (builtin_operand L, builtin_operand R) of
        (Some TL, Some TR) \<Rightarrow>
          if native op TL TR then Inr (Builtin_operator TL TR) else Inl No_matching_function
      | _ \<Rightarrow> Inl No_matching_function)"

definition resolve_binary ::
  "(binop \<Rightarrow> ctype \<Rightarrow> ctype \<Rightarrow> bool) \<Rightarrow> binop \<Rightarrow> ctype \<Rightarrow> ctype \<Rightarrow> compile_error + selected" where
  "resolve_binary native op L R =
     (case alias_of L of
        None \<Rightarrow> builtin_candidate native op L R
      | Some (b, T, Name) \<Rightarrow>
          if kind_of op = Assignment \<and> is_const_v L then Inl No_matching_function
          else
          (case (if op = Assign \<and>
                    (rm_cvref_t L \<noteq> Alias T Name \<or> remove_cv_t R = rm_cvref_t L)
                 then None
                 else member_operator b Name (kind_of op) R) of
             Some Deleted \<Rightarrow> Inl Use_of_deleted_function
           | Some Defined \<Rightarrow> Inr Member_operator
           | None \<Rightarrow>
               if op = Assign then
                 (if converts_implicitly (rm_cvref_t L) b T Name R
                  then Inr Copy_or_move_assignment else Inl No_matching_function)
               else if b = Inheritance then Inr Operator_of_T
               else if kind_of op = Assignment then Inl No_matching_function
               else builtin_candidate native op L R))"

text \<open>
  The value of a comparison, logical or arithmetic expression on scalars and
  composition-body aliases: where resolution selects a built-in operator, that
  operator, \<open>f\<close>, applied to the operands converted by \<open>operator_T\<close>; \<open>None\<close> where it
  selects something else.
\<close>

datatype 'v operand = Plain 'v | Wrapped "'v scalar_alias"

fun to_builtin :: "'v operand \<Rightarrow> 'v" where
  "to_builtin (Plain v) = v"
| "to_builtin (Wrapped a) = operator_T a"

definition binary_expr ::
  "(binop \<Rightarrow> ctype \<Rightarrow> ctype \<Rightarrow> bool) \<Rightarrow> binop \<Rightarrow> ctype \<Rightarrow> ctype \<Rightarrow> ('v \<Rightarrow> 'u \<Rightarrow> 'r)
     \<Rightarrow> 'v operand \<Rightarrow> 'u operand \<Rightarrow> compile_error + 'r option" where
  "binary_expr native op L R f x y =
     (case resolve_binary native op L R of
        Inl e \<Rightarrow> Inl e
      | Inr (Builtin_operator TL TR) \<Rightarrow> Inr (Some (f (to_builtin x) (to_builtin y)))
      | Inr s \<Rightarrow> Inr None)"

section \<open>Assignment operators\<close>

text \<open>
  Composition body: \<^verbatim>\<open>{ value += arg; return *this; }\<close>, and likewise for the other
  ten operators. \<open>T_op\<close> is the operator of \<open>T\<close>: the value of the left operand
  afterwards, from its value before and the right operand (for \<^verbatim>\<open>=\<close>, the right
  operand converted to \<open>T\<close>). A right operand that is an alias reaches it through
  \<open>operator_T\<close>.
\<close>

definition compound_body ::
  "('v \<Rightarrow> 'u \<Rightarrow> 'v) \<Rightarrow> addr \<Rightarrow> 'u \<Rightarrow> 'v memory \<Rightarrow> 'v memory \<times> 'v returned" where
  "compound_body T_op this arg m =
     (m(this := \<lparr>value' = T_op (value' (m this)) arg\<rparr>), Ref_to_alias this)"

text \<open>
  An assignment expression on a composition-body alias. The operator of \<open>T\<close> is
  given as \<open>Some T_op\<close>, or as \<open>None\<close> when \<open>T\<close> has no such operator for the operand
  (as \<^verbatim>\<open>*=\<close> on a pointer), in which case the body of the selected template is
  ill-formed.
\<close>

definition assign_expr ::
  "(binop \<Rightarrow> ctype \<Rightarrow> ctype \<Rightarrow> bool) \<Rightarrow> binop \<Rightarrow> ctype \<Rightarrow> ctype \<Rightarrow> ('v \<Rightarrow> 'u \<Rightarrow> 'v) option
     \<Rightarrow> addr \<Rightarrow> 'u \<Rightarrow> 'v memory \<Rightarrow> compile_error + 'v memory \<times> 'v returned" where
  "assign_expr native op L R T_op this arg m =
     (case alias_of L of
        Some (Composition, T, Name) \<Rightarrow>
          if kind_of op \<noteq> Assignment then Inl No_matching_function
          else (case resolve_binary native op L R of
                  Inl e \<Rightarrow> Inl e
                | Inr s \<Rightarrow>
                    (case T_op of
                       None \<Rightarrow> Inl No_matching_function
                     | Some f \<Rightarrow> Inr (compound_body f this arg m)))
      | _ \<Rightarrow> Inl No_matching_function)"

text \<open>
  Inheritance body: \<^verbatim>\<open>{ return static_cast<alias&>(T::operator +=(arg)); }\<close>. The
  operator of \<open>T\<close> is a member function of the class \<open>T\<close>, called on the inherited
  sub-object: \<open>T_member this arg m\<close> is the memory it leaves and the address of the
  \<open>T\<close> object to which the reference it returns refers. The alias's operator returns
  that reference, cast to a reference to the alias.
\<close>

type_synonym 'v class_memory = "addr \<Rightarrow> 'v class_alias"

definition class_compound_body ::
  "(addr \<Rightarrow> 'u \<Rightarrow> 'v class_memory \<Rightarrow> 'v class_memory \<times> addr) \<Rightarrow> addr \<Rightarrow> 'u \<Rightarrow> 'v class_memory
     \<Rightarrow> 'v class_memory \<times> 'v returned" where
  "class_compound_body T_member this arg m =
     (case T_member this arg m of (m', r) \<Rightarrow> (m', Ref_to_alias r))"

text \<open>
  An assignment expression on an inheritance-body alias. The member operator of
  \<open>T\<close> is given as \<open>Some T_member\<close>, or as \<open>None\<close> when \<open>T\<close> has none. The
  implicitly declared copy and move assignment operators assign the sub-object with
  the operator of \<open>T\<close> and return the alias itself. The result is \<open>None\<close> where
  resolution leaves the expression to the operators of \<open>T\<close>.
\<close>

definition class_assign_expr ::
  "(binop \<Rightarrow> ctype \<Rightarrow> ctype \<Rightarrow> bool) \<Rightarrow> binop \<Rightarrow> ctype \<Rightarrow> ctype
     \<Rightarrow> (addr \<Rightarrow> 'u \<Rightarrow> 'v class_memory \<Rightarrow> 'v class_memory \<times> addr) option
     \<Rightarrow> addr \<Rightarrow> 'u \<Rightarrow> 'v class_memory
     \<Rightarrow> compile_error + ('v class_memory \<times> 'v returned) option" where
  "class_assign_expr native op L R T_member this arg m =
     (case alias_of L of
        Some (Inheritance, T, Name) \<Rightarrow>
          if kind_of op \<noteq> Assignment then Inl No_matching_function
          else (case resolve_binary native op L R of
                  Inl e \<Rightarrow> Inl e
                | Inr Operator_of_T \<Rightarrow> Inr None
                | Inr Copy_or_move_assignment \<Rightarrow>
                    (case T_member of
                       None \<Rightarrow> Inl No_matching_function
                     | Some f \<Rightarrow> Inr (Some (fst (f this arg m), Ref_to_alias this)))
                | Inr s \<Rightarrow>
                    (case T_member of
                       None \<Rightarrow> Inl No_matching_function
                     | Some f \<Rightarrow> Inr (Some (class_compound_body f this arg m))))
      | _ \<Rightarrow> Inl No_matching_function)"

section \<open>Equality of floating-point values\<close>

text \<open>
  The built-in \<^verbatim>\<open>==\<close> of a floating-point type is not reflexive: a NaN compares
  unequal to every value, itself included. The values of \<^verbatim>\<open>double\<close> are given
  here as far as \<^verbatim>\<open>==\<close> tells them apart: the numbers, for which the real numbers
  stand, and NaN. Value-initialisation gives the number zero.
\<close>

datatype double_value = Number real | NaN


instantiation double_value :: zero
begin

definition zero_double_value :: double_value where
  "zero_double_value = Number 0"

instance ..

end

section \<open>Basic facts about the type queries\<close>

lemma scalar_not_class: "is_scalar_v T \<Longrightarrow> \<not> is_class_v T"
  by (induction T rule: is_scalar_v.induct) auto

lemma alias_body_scalar: "is_scalar_v T \<Longrightarrow> alias_body T = Selected Composition"
  using scalar_not_class[of T] by (simp add: alias_body_def matching_specialisations_def)

lemma alias_body_class:
  "is_class_v T \<Longrightarrow> \<not> is_final_v T \<Longrightarrow> alias_body T = Selected Inheritance"
  using scalar_not_class[of T] by (auto simp: alias_body_def matching_specialisations_def)

lemma scalar_no_base: "is_scalar_v T \<Longrightarrow> \<not> is_base_of_v B T"
  by (induction T rule: is_scalar_v.induct) auto

lemma is_base_of_trans:
  "is_base_of_v B D \<Longrightarrow> is_base_of_v C B \<Longrightarrow> is_base_of_v C D"
  by (induction B D rule: is_base_of_v.induct) (auto simp: list_ex_iff)

lemma base_alias_carries_name:
  "is_base_of_v (Alias T n) D \<Longrightarrow> is_base_of_v (Alias_name n) D \<and> is_base_of_v Is_alias_t D"
  using is_base_of_trans[of "Alias T n" D] by simp

lemma scalar_remove_cv: "is_scalar_v T \<Longrightarrow> is_scalar_v (remove_cv_t T)"
  by (induction T rule: is_scalar_v.induct) auto

lemma scalar_remove_reference: "is_scalar_v T \<Longrightarrow> remove_reference_t T = T"
  by (cases T) auto

lemma builtin_operand_scalar: "is_scalar_v T \<Longrightarrow> builtin_operand T = Some (remove_cv_t T)"
  by (induction T rule: is_scalar_v.induct) auto

lemma alias_of_scalar: "is_scalar_v T \<Longrightarrow> alias_of T = None"
  using scalar_remove_cv[of T] scalar_remove_reference[of T]
  by (cases "remove_cv_t T") (auto simp: alias_of_def rm_cvref_t_def)

lemma rm_cvref_alias: "rm_cvref_t (Alias T n) = Alias T n"
  by (simp add: rm_cvref_t_def)

lemma is_alias_Alias: "is_alias (Alias T n)"
  by (simp add: is_alias_def rm_cvref_alias)

lemma classify_iff:
  "classify Name ArgT \<noteq> Different_alias \<longleftrightarrow> (\<not> is_alias ArgT \<or> is_same_alias ArgT Name)"
  by (auto simp: classify_def is_alias_def is_same_alias_def)

lemma classify_different:
  "classify Name ArgT = Different_alias \<longleftrightarrow> is_different_alias ArgT Name"
  by (auto simp: classify_def is_alias_def is_different_alias_def)

lemma object_type_remove_cv: "object_type U \<Longrightarrow> object_type (remove_cv_t U)"
  by (induction U rule: remove_cv_t.induct) auto

lemma object_type_no_reference: "object_type U \<Longrightarrow> remove_reference_t U = U"
  by (cases U) auto

lemma remove_cv_idem: "remove_cv_t (remove_cv_t U) = remove_cv_t U"
  by (induction U rule: remove_cv_t.induct) auto

lemma rm_cvref_object: "object_type U \<Longrightarrow> rm_cvref_t U = remove_cv_t U"
  by (simp add: rm_cvref_t_def object_type_no_reference)

lemma rm_cvref_deduced:
  "object_type U \<Longrightarrow> rm_cvref_t (deduce_forwarding (c, U)) = remove_cv_t U"
  by (cases c) (simp_all add: rm_cvref_t_def object_type_no_reference)

lemma rm_cvref_idem_object:
  "object_type U \<Longrightarrow> rm_cvref_t (remove_cv_t U) = remove_cv_t U"
  using object_type_remove_cv[of U] by (simp add: rm_cvref_object remove_cv_idem)

lemma is_alias_deduced:
  "object_type U \<Longrightarrow> is_alias (deduce_forwarding (c, U)) = is_alias U"
  by (simp add: is_alias_def rm_cvref_deduced rm_cvref_object)

subsection \<open>Declared aliases\<close>

lemma declared_facts:
  assumes "declared A T n"
  shows "object_type A" and "rm_cvref_t A = A" and "\<not> is_const_v A" and "is_alias A"
    and "is_same_alias A n" and "alias_base A = Some (T, n)"
  using assms
  by (auto simp: declared_def STRONG_ALIAS_def rm_cvref_t_def is_alias_def is_same_alias_def)

lemma declared_alias_of:
  "declared A T n \<Longrightarrow> alias_body T = Selected b \<Longrightarrow> alias_of A = Some (b, T, n)"
  by (simp add: alias_of_def declared_facts)

lemma declared_operand:
  "declared A T n \<Longrightarrow> is_scalar_v T \<Longrightarrow> builtin_operand A = Some (remove_cv_t T)"
  using alias_body_scalar[of T] by (auto simp: declared_def STRONG_ALIAS_def)

lemma declared_different:
  assumes "declared B T m" and "m \<noteq> n" and "\<not> is_base_of_v (Alias_name n) T"
  shows "is_different_alias B n"
  using assms
  by (auto simp: declared_def STRONG_ALIAS_def is_different_alias_def is_alias_def rm_cvref_t_def)

lemma not_different_self: "declared A T n \<Longrightarrow> \<not> is_different_alias A n"
  using declared_facts(5)[of A T n] by (simp add: is_different_alias_def is_same_alias_def)

text \<open>A different alias is accepted by no constructor that copy-initialisation considers.\<close>

lemma no_copy_init_from_different:
  assumes "is_different_alias R Name" and "object_type R"
  shows "viable_ctors Copy_init T Name [(c, R)] = []"
proof (cases "alias_body T")
  case (Selected b)
  have al: "is_base_of_v Is_alias_t (remove_cv_t R)" and
       nn: "\<not> is_base_of_v (Alias_name Name) (remove_cv_t R)"
    using assms by (auto simp: is_different_alias_def is_alias_def rm_cvref_object)
  have d: "rm_cvref_t (deduce_forwarding (c, R)) = remove_cv_t R"
    using assms(2) by (rule rm_cvref_deduced)
  have nb: "\<not> is_base_of_v (Alias T Name) (remove_cv_t R)"
    using nn base_alias_carries_name by blast
  have rr: "rm_cvref_t (remove_cv_t R) = remove_cv_t R"
    using assms(2) by (rule rm_cvref_idem_object)
  show ?thesis
    using al nn nb d rr Selected
    by (cases b) (auto simp: viable_ctors_def is_alias_def is_same_alias_def)
qed (auto simp: viable_ctors_def)

lemma no_conversion_from_different:
  assumes "is_different_alias R Name" and "object_type R" and "declared A T Name"
  shows "\<not> converts_implicitly A b T Name R"
proof -
  have al: "is_base_of_v Is_alias_t (remove_cv_t R)" and
       nn: "\<not> is_base_of_v (Alias_name Name) (remove_cv_t R)"
    using assms by (auto simp: is_different_alias_def is_alias_def rm_cvref_object)
  have "is_base_of_v (Alias_name Name) A"
    using declared_facts(2,5)[OF assms(3)] by (simp add: is_same_alias_def)
  then have nb: "\<not> is_base_of_v A (remove_cv_t R)"
    using nn is_base_of_trans by blast
  have rr: "rm_cvref_t (remove_cv_t R) = remove_cv_t R"
    using assms(2) by (rule rm_cvref_idem_object)
  show ?thesis
    using al nn nb rr assms(2)
    by (cases b) (auto simp: converts_implicitly_def is_alias_def is_same_alias_def
          rm_cvref_object rm_cvref_t_def object_type_no_reference)
qed


section \<open>Category selection is exclusive\<close>

text \<open>
  Claim C9. For every representation type \<open>T\<close>: if \<open>T\<close> is a scalar the composition
  body is selected; if \<open>T\<close> is a class type that is not final the inheritance body
  is selected; at most one specialisation ever matches, so the selection is never
  ambiguous; and for a final class type no specialisation matches, so the alias is
  the undefined primary template and has no body, composition included.
\<close>

theorem category_selection:
  "(is_scalar_v T \<longrightarrow> alias_body T = Selected Composition) \<and>
   (is_class_v T \<and> \<not> is_final_v T \<longrightarrow> alias_body T = Selected Inheritance) \<and>
   length (matching_specialisations T) \<le> 1 \<and>
   alias_body T \<noteq> Ambiguous_specialisation \<and>
   (is_class_v T \<and> is_final_v T \<longrightarrow>
      matching_specialisations T = [] \<and> alias_body T = Incomplete_type)"
  using scalar_not_class[of T]
  by (auto simp: alias_body_def matching_specialisations_def)

theorem category_selection_witness:
  "is_scalar_v (Pointer (Integral ''int'')) \<and>
   alias_body (Pointer (Integral ''int'')) = Selected Composition \<and>
   is_class_v (Class ''Vector3d'' False []) \<and> \<not> is_final_v (Class ''Vector3d'' False []) \<and>
   alias_body (Class ''Vector3d'' False []) = Selected Inheritance \<and>
   is_class_v (Class ''Sealed'' True []) \<and> is_final_v (Class ''Sealed'' True []) \<and>
   alias_body (Class ''Sealed'' True []) = Incomplete_type"
  using category_selection [of "Pointer (Integral ''int'')"]
        category_selection [of "Class ''Vector3d'' False []"]
        category_selection [of "Class ''Sealed'' True []"]
  by simp

section \<open>Comparison of different aliases\<close>

text \<open>
  Claim C1. Let \<open>A\<close> and \<open>B\<close> be aliases over the same scalar \<open>T\<close> with distinct
  identities \<open>n1\<close> and \<open>n2\<close>, each the template specialisation or the macro's
  struct. Each of \<^verbatim>\<open>a == b\<close>, \<^verbatim>\<open>!=\<close>, \<^verbatim>\<open>>=\<close>, \<^verbatim>\<open><=\<close>, \<^verbatim>\<open>>\<close>, \<^verbatim>\<open><\<close>,
  \<^verbatim>\<open>&&\<close>, \<^verbatim>\<open>||\<close> is ill-formed as the use of a deleted function (not as the
  absence of an operator), whatever built-in operators exist; and \<^verbatim>\<open>a == a\<close> is
  the same expression as \<^verbatim>\<open>static_cast<T>(a) == static_cast<T>(a)\<close>: it compiles
  when that does, and to the same value.
\<close>

theorem different_alias_comparison_deleted:
  assumes "is_scalar_v T" and "n1 \<noteq> n2" and "declared A T n1" and "declared B T n2"
  shows "(\<forall>op \<in> {Eq, Ne, Ge, Le, Gt, Lt, Land, Lor}.
           binary_expr native op A B f (Wrapped a) (Wrapped b) = Inl Use_of_deleted_function) \<and>
         binary_expr native Eq A A g (Wrapped a) (Wrapped a)
           = binary_expr native Eq T T g (Plain (operator_T a)) (Plain (operator_T a))"
proof -
  have body: "alias_body T = Selected Composition"
    using assms(1) by (rule alias_body_scalar)
  have A: "alias_of A = Some (Composition, T, n1)"
    using assms(3) body by (rule declared_alias_of)
  have diff: "is_different_alias B n1"
    using assms(4) assms(2)[symmetric] scalar_no_base[OF assms(1)] by (rule declared_different)
  have same: "\<not> is_different_alias A n1"
    using assms(3) by (rule not_different_self)
  have deleted: "resolve_binary native op A B = Inl Use_of_deleted_function"
    if "kind_of op = Comparison \<or> kind_of op = Logical" for op
    using that diff by (auto simp: resolve_binary_def A)
  have "resolve_binary native Eq A A = resolve_binary native Eq T T"
    using same alias_of_scalar[OF assms(1)] builtin_operand_scalar[OF assms(1)]
          declared_operand[OF assms(3,1)]
    by (simp add: resolve_binary_def A builtin_candidate_def)
  then have "binary_expr native Eq A A g (Wrapped a) (Wrapped a)
           = binary_expr native Eq T T g (Plain (operator_T a)) (Plain (operator_T a))"
    by (simp add: binary_expr_def split: sum.splits selected.splits)
  moreover have "\<forall>op \<in> {Eq, Ne, Ge, Le, Gt, Lt, Land, Lor}.
           binary_expr native op A B f (Wrapped a) (Wrapped b) = Inl Use_of_deleted_function"
    using deleted by (auto simp: binary_expr_def)
  ultimately show ?thesis by blast
qed

theorem different_alias_comparison_deleted_witness:
  "is_scalar_v (Integral ''int'') \<and> ''A'' \<noteq> ''B'' \<and>
   declared (STRONG_ALIAS ''A'' (Integral ''int'')) (Integral ''int'') ''A'' \<and>
   declared (STRONG_ALIAS ''B'' (Integral ''int'')) (Integral ''int'') ''B'' \<and>
   binary_expr (\<lambda>op L R. True) Eq (STRONG_ALIAS ''A'' (Integral ''int''))
      (STRONG_ALIAS ''B'' (Integral ''int''))
      (=) (Wrapped \<lparr>value' = 1::int\<rparr>) (Wrapped \<lparr>value' = 1::int\<rparr>) = Inl Use_of_deleted_function \<and>
   binary_expr (\<lambda>op L R. True) Lor (STRONG_ALIAS ''A'' (Integral ''int''))
      (STRONG_ALIAS ''B'' (Integral ''int''))
      (\<lambda>x y. x \<noteq> 0 \<or> y \<noteq> 0) (Wrapped \<lparr>value' = 1::int\<rparr>) (Wrapped \<lparr>value' = 0::int\<rparr>)
        = Inl Use_of_deleted_function \<and>
   binary_expr (\<lambda>op L R. True) Eq (STRONG_ALIAS ''A'' (Integral ''int''))
      (STRONG_ALIAS ''A'' (Integral ''int''))
      (=) (Wrapped \<lparr>value' = 1::int\<rparr>) (Wrapped \<lparr>value' = 1::int\<rparr>) = Inr (Some True)"
proof -
  have s: "is_scalar_v (Integral ''int'')" by simp
  have d: "''A'' \<noteq> ''B''" by simp
  have dA: "declared (STRONG_ALIAS ''A'' (Integral ''int'')) (Integral ''int'') ''A''"
    and dB: "declared (STRONG_ALIAS ''B'' (Integral ''int'')) (Integral ''int'') ''B''"
    by (simp_all add: declared_def)
  have n: "resolve_binary (\<lambda>op L R. True) Eq (Integral ''int'') (Integral ''int'')
             = Inr (Builtin_operator (Integral ''int'') (Integral ''int''))"
    by (simp add: resolve_binary_def alias_of_def rm_cvref_t_def builtin_candidate_def)
  show ?thesis
    using different_alias_comparison_deleted
            [OF s d dA dB, of "\<lambda>op L R. True" "(=)" "\<lparr>value' = 1::int\<rparr>" "\<lparr>value' = 1::int\<rparr>" "(=)"]
          different_alias_comparison_deleted
            [OF s d dA dB, of "\<lambda>op L R. True" "\<lambda>x y. x \<noteq> 0 \<or> y \<noteq> 0" "\<lparr>value' = 1::int\<rparr>"
               "\<lparr>value' = 0::int\<rparr>" "(=)"]
          dA dB
    by (simp add: binary_expr_def n operator_T_def)
qed

section \<open>Assignment is gated by identity\<close>

text \<open>
  Claim C2. For an alias \<open>A\<close> over \<open>T\<close> with identity \<open>Name\<close>, of either body, and
  each of the eleven assignment operators: the member operator exists for a
  right-hand operand exactly when the operand is not an alias or is an alias of the
  same identity, and for a different alias there is none. So \<^verbatim>\<open>a = r\<close> is ill-formed
  for every operand \<open>r\<close> that is a different alias, for want of a matching operator,
  as is every assignment operator of a composition-body alias applied to an alias
  \<open>B\<close> over the same scalar with another identity. With a right-hand operand of
  the type \<open>A\<close> itself the expression compiles, through the member template or, for
  \<^verbatim>\<open>=\<close>, through the copy assignment operator. In the composition body it
  applies the operator of \<open>T\<close> to the owned value and the operand's value and
  returns a reference to the left-hand alias. In the inheritance body it calls the
  operator of \<open>T\<close> on the inherited sub-object; \<^verbatim>\<open>a = b\<close> returns a reference to
  the left-hand alias, and a compound assignment returns the reference that the
  operator of \<open>T\<close> returns, as a reference to an alias, which is the left-hand
  alias when the operator of \<open>T\<close> returns its own object.
\<close>

theorem assignment_gated_by_identity:
  assumes "alias_body T = Selected b" and "kind_of op = Assignment" and "declared A T Name"
  shows
   "(member_operator b Name (kind_of op) ArgT = Some Defined
        \<longleftrightarrow> classify Name ArgT \<noteq> Different_alias) \<and>
    (classify Name ArgT = Different_alias \<longrightarrow> member_operator b Name (kind_of op) ArgT = None) \<and>
    (classify Name R = Different_alias \<and> object_type R \<longrightarrow>
        resolve_binary native Assign A R = Inl No_matching_function) \<and>
    (is_scalar_v T \<and> Other \<noteq> Name \<and> declared B T Other \<longrightarrow>
        classify Name B = Different_alias \<and>
        resolve_binary native op A B = Inl No_matching_function) \<and>
    resolve_binary native op A A
      = Inr (if op = Assign then Copy_or_move_assignment else Member_operator) \<and>
    (b = Composition \<longrightarrow>
        assign_expr native op A A (Some T_op) this (operator_T rhs) m
          = Inr (m(this := \<lparr>value' = T_op (value' (m this)) (value' rhs)\<rparr>), Ref_to_alias this)) \<and>
    (b = Inheritance \<longrightarrow>
        class_assign_expr native op A A (Some T_member) this arg cm
          = Inr (Some (fst (T_member this arg cm),
                       Ref_to_alias (if op = Assign then this else snd (T_member this arg cm))))) \<and>
    (b = Inheritance \<and> snd (T_member this arg cm) = this \<longrightarrow>
        class_assign_expr native op A A (Some T_member) this arg cm
          = Inr (Some (fst (T_member this arg cm), Ref_to_alias this)))"
proof -
  note A = declared_alias_of[OF assms(3,1)] and dA = declared_facts[OF assms(3)]
  have mem: "member_operator b Name (kind_of op) ArgT
               = (if \<not> is_alias ArgT \<or> is_same_alias ArgT Name then Some Defined else None)"
    for ArgT
    using assms(2) by (cases b) auto
  have conv: "converts_implicitly A b T Name A"
    using assms(3) by (auto simp: converts_implicitly_def declared_def STRONG_ALIAS_def rm_cvref_t_def)
  have sel: "resolve_binary native op A A
      = Inr (if op = Assign then Copy_or_move_assignment else Member_operator)"
  proof -
    have "member_operator b Name (kind_of op) A = Some Defined"
      using dA(5) by (simp add: mem)
    moreover have "remove_cv_t A = A"
      using assms(3) by (auto simp: declared_def STRONG_ALIAS_def)
    ultimately show ?thesis
      using dA(2,3) conv assms(2) by (simp add: resolve_binary_def A)
  qed
  have c1: "member_operator b Name (kind_of op) ArgT = Some Defined
        \<longleftrightarrow> classify Name ArgT \<noteq> Different_alias"
    by (simp add: mem classify_iff)
  have c2: "classify Name ArgT = Different_alias \<longrightarrow> member_operator b Name (kind_of op) ArgT = None"
    for ArgT
    using classify_iff[of Name ArgT] by (simp add: mem)
  have none: "resolve_binary native op' A R = Inl No_matching_function"
    if "is_different_alias R Name" and "object_type R" and "kind_of op' = Assignment"
       and "op' = Assign \<or> b = Composition" for op' R
  proof -
    have "\<not> (\<not> is_alias R \<or> is_same_alias R Name)"
      using that(1) by (auto simp: is_different_alias_def is_same_alias_def)
    then have m: "member_operator b Name (kind_of op') R = None"
      using that(3) by (cases b) auto
    have nc: "\<not> converts_implicitly (rm_cvref_t A) b T Name R"
      using no_conversion_from_different[OF that(1,2) assms(3), of b] dA(2) by simp
    show ?thesis
    proof (cases "op' = Assign")
      case True
      then show ?thesis
        using m nc dA(3) by (auto simp add: resolve_binary_def A)
    next
      case False
      then have "b = Composition" using that(4) by simp
      then show ?thesis
        using m False that(3) dA(3) by (simp add: resolve_binary_def A)
    qed
  qed
  have c3: "resolve_binary native Assign A R = Inl No_matching_function"
    if "classify Name R = Different_alias" and "object_type R"
    using that none[of R Assign] by (simp add: classify_different)
  have c4: "classify Name B = Different_alias \<and>
        resolve_binary native op A B = Inl No_matching_function"
    if "is_scalar_v T" and "Other \<noteq> Name" and "declared B T Other"
  proof -
    have bc: "b = Composition"
      using alias_body_scalar[OF that(1)] assms(1) by simp
    have d: "is_different_alias B Name"
      using that(3,2) scalar_no_base[OF that(1)] by (rule declared_different)
    show ?thesis
      using d none[OF d declared_facts(1)[OF that(3)] assms(2)] bc
      by (simp add: classify_different)
  qed
  have c6: "assign_expr native op A A (Some T_op) this (operator_T rhs) m
          = Inr (m(this := \<lparr>value' = T_op (value' (m this)) (value' rhs)\<rparr>), Ref_to_alias this)"
    if "b = Composition"
    using that assms(2) sel by (simp add: assign_expr_def A compound_body_def operator_T_def)
  have c7: "class_assign_expr native op A A (Some T_member) this arg cm
          = Inr (Some (fst (T_member this arg cm),
                       Ref_to_alias (if op = Assign then this else snd (T_member this arg cm))))"
    if "b = Inheritance"
    using that assms(2) sel
    by (simp add: class_assign_expr_def A class_compound_body_def split: prod.splits)
  show ?thesis
    using c1 c2 c3 c4 sel c6 c7 by simp
qed


theorem assignment_gated_by_identity_witness:
  "alias_body (Integral ''int'') = Selected Composition \<and> kind_of Add_assign = Assignment \<and>
   declared (STRONG_ALIAS ''A'' (Integral ''int'')) (Integral ''int'') ''A'' \<and>
   is_scalar_v (Integral ''int'') \<and> ''B'' \<noteq> ''A'' \<and>
   declared (STRONG_ALIAS ''B'' (Integral ''int'')) (Integral ''int'') ''B'' \<and>
   object_type (STRONG_ALIAS ''B'' (Integral ''int'')) \<and>
   classify ''A'' (STRONG_ALIAS ''B'' (Integral ''int'')) = Different_alias \<and>
   member_operator Composition ''A'' (kind_of Add_assign) (STRONG_ALIAS ''B'' (Integral ''int''))
     = None \<and>
   resolve_binary (\<lambda>op L R. True) Assign (STRONG_ALIAS ''A'' (Integral ''int''))
      (STRONG_ALIAS ''B'' (Integral ''int'')) = Inl No_matching_function \<and>
   resolve_binary (\<lambda>op L R. True) Add_assign (STRONG_ALIAS ''A'' (Integral ''int''))
      (STRONG_ALIAS ''B'' (Integral ''int'')) = Inl No_matching_function \<and>
   assign_expr (\<lambda>op L R. True) Add_assign (STRONG_ALIAS ''A'' (Integral ''int''))
      (STRONG_ALIAS ''A'' (Integral ''int''))
      (Some (+)) 0 (operator_T \<lparr>value' = 2::int\<rparr>) (\<lambda>p. \<lparr>value' = 40\<rparr>)
     = Inr ((\<lambda>p. \<lparr>value' = 40\<rparr>)(0 := \<lparr>value' = 42\<rparr>), Ref_to_alias 0) \<and>
   alias_body (Class ''Vector3d'' False []) = Selected Inheritance \<and>
   declared (Alias (Class ''Vector3d'' False []) ''X'') (Class ''Vector3d'' False []) ''X'' \<and>
   class_assign_expr (\<lambda>op L R. True) Assign (Alias (Class ''Vector3d'' False []) ''X'')
      (Alias (Class ''Vector3d'' False []) ''X'')
      (Some (\<lambda>p x mem. (mem(p := \<lparr>base_T = x\<rparr>), p))) 1 (7::int) (\<lambda>p. \<lparr>base_T = 0\<rparr>)
     = Inr (Some ((\<lambda>p. \<lparr>base_T = 0\<rparr>)(1 := \<lparr>base_T = 7\<rparr>), Ref_to_alias 1))"
proof -
  have b1: "alias_body (Integral ''int'') = Selected Composition"
    by (simp add: alias_body_def matching_specialisations_def)
  have b2: "alias_body (Class ''Vector3d'' False []) = Selected Inheritance"
    by (simp add: alias_body_def matching_specialisations_def)
  have k1: "kind_of Add_assign = Assignment" and k2: "kind_of Assign = Assignment" by simp_all
  have dA: "declared (STRONG_ALIAS ''A'' (Integral ''int'')) (Integral ''int'') ''A''"
    and dB: "declared (STRONG_ALIAS ''B'' (Integral ''int'')) (Integral ''int'') ''B''"
    and dX: "declared (Alias (Class ''Vector3d'' False []) ''X'') (Class ''Vector3d'' False []) ''X''"
    by (simp_all add: declared_def)
  have o: "object_type (STRONG_ALIAS ''B'' (Integral ''int''))"
    by (simp add: STRONG_ALIAS_def)
  show ?thesis
    using assignment_gated_by_identity [OF b1 k1 dA, where
                ArgT = "STRONG_ALIAS ''B'' (Integral ''int'')"
                and R = "STRONG_ALIAS ''B'' (Integral ''int'')" and native = "\<lambda>op L R. True"
                and Other = "''B''" and B = "STRONG_ALIAS ''B'' (Integral ''int'')"
                and T_op = "(+)" and this = 0
                and rhs = "\<lparr>value' = 2::int\<rparr>" and m = "\<lambda>p. \<lparr>value' = 40\<rparr>"]
          assignment_gated_by_identity [OF b2 k2 dX, where native = "\<lambda>op L R. True"
                and T_member = "\<lambda>p x mem. (mem(p := \<lparr>base_T = x\<rparr>), p)" and this = 1
                and arg = "7::int" and cm = "\<lambda>p. \<lparr>base_T = 0\<rparr>"]
          b1 b2 dA dB dX o
    by (simp add: operator_T_def)
qed

section \<open>Construction from a different alias\<close>

lemma int_body: "alias_body (Integral ''int'') = Selected Composition"
  by (simp add: alias_body_def matching_specialisations_def)

lemma double_body: "alias_body (Floating ''double'') = Selected Composition"
  by (simp add: alias_body_def matching_specialisations_def)

text \<open>
  Claim C3, as stated, fails: with \<open>A\<close> and \<open>B\<close> the aliases over \<^verbatim>\<open>int\<close> of the
  header's test program, \<^verbatim>\<open>A a; B b(a);\<close> is accepted by the explicit variadic
  constructor of \<open>B\<close>, and \<open>b\<close> gets the value of \<open>a\<close>.
\<close>

theorem direct_init_from_different_alias_accepted:
  "viable_ctors Direct_init (Integral ''int'') ''B'' [(Lvalue, STRONG_ALIAS ''A'' (Integral ''int''))]
     = [Variadic_ctor] \<and>
   construct (=) Direct_init (Integral ''int'') ''B''
      [((Lvalue, STRONG_ALIAS ''A'' (Integral ''int'')), 0::int)] = Inr \<lparr>value' = 0\<rparr>"
  by (simp add: construct_def select_ctor_def viable_ctors_def int_body is_alias_def rm_cvref_t_def
        initialises_def STRONG_ALIAS_def)

lemma variadic_accepts_alias:
  assumes "alias_body T = Selected b" and "is_alias U" and "object_type U"
  shows "Variadic_ctor \<in> set (viable_ctors Direct_init T Name [(c, U)])"
  using assms by (cases b) (simp_all add: viable_ctors_def is_alias_deduced)

text \<open>
  Claim C3, amended. Let \<open>B\<close> be an alias over \<open>T2\<close> with identity \<open>n2\<close>, of
  either body, and \<open>A\<close> an alias over \<open>T1\<close> with another identity \<open>n1\<close>, where
  \<open>T1\<close> does not itself carry the marker of \<open>n2\<close> (no scalar does). A value of \<open>A\<close>
  is never converted to \<open>B\<close> implicitly: copy-initialisation \<^verbatim>\<open>B b = a;\<close> has no
  viable constructor, since the constructor that is not explicit rejects a
  different alias and the copy and move constructors do not apply.
  Direct-initialisation \<^verbatim>\<open>B b(a);\<close> selects the explicit variadic constructor,
  which accepts every alias; for scalars \<open>T1\<close> and \<open>T2\<close> with an implicit,
  non-narrowing conversion from the one to the other it compiles and \<open>b\<close> gets the
  converted value of \<open>a\<close>.
\<close>

theorem no_implicit_conversion_between_aliases:
  assumes "alias_body T2 = Selected b" and "n1 \<noteq> n2"
      and "\<not> is_base_of_v (Alias_name n2) T1" and "declared A T1 n1"
  shows "viable_ctors Copy_init T2 n2 [(c, A)] = [] \<and>
         \<not> ctor_requires b T2 n2 Converting_ctor [deduce_forwarding (c, A)] \<and>
         \<not> ctor_requires b T2 n2 Copy_or_move_ctor [deduce_forwarding (c, A)] \<and>
         ctor_requires b T2 n2 Variadic_ctor [deduce_forwarding (c, A)] \<and>
         ctor_explicit Variadic_ctor \<and>
         select_ctor Direct_init T2 n2 [(c, A)] = Some Variadic_ctor \<and>
         (is_scalar_v T1 \<and> is_scalar_v T2 \<and> conv (remove_cv_t T1) (remove_cv_t T2) \<longrightarrow>
            construct conv Direct_init T2 n2 [((c, A), v)] = Inr \<lparr>value' = v\<rparr>)"
proof -
  note dA = declared_facts[OF assms(4)]
  have d: "is_different_alias A n2"
    using assms(4,2,3) by (rule declared_different)
  have none: "viable_ctors Copy_init T2 n2 [(c, A)] = []"
    using d dA(1) by (rule no_copy_init_from_different)
  have var: "Variadic_ctor \<in> set (viable_ctors Direct_init T2 n2 [(c, A)])"
    using assms(1) dA(4,1) by (rule variadic_accepts_alias)
  have conv: "\<not> ctor_requires b T2 n2 Converting_ctor [deduce_forwarding (c, A)]"
    and cm: "\<not> ctor_requires b T2 n2 Copy_or_move_ctor [deduce_forwarding (c, A)]"
    using none assms(1) by (auto simp: viable_ctors_def split: if_splits)
  have req: "ctor_requires b T2 n2 Variadic_ctor [deduce_forwarding (c, A)]"
    using var assms(1) by (auto simp: viable_ctors_def split: if_splits)
  have v: "viable_ctors Direct_init T2 n2 [(c, A)] = [Variadic_ctor]"
    using conv cm req assms(1) by (simp add: viable_ctors_def)
  have sel: "select_ctor Direct_init T2 n2 [(c, A)] = Some Variadic_ctor"
    by (simp add: select_ctor_def v)
  have "construct conv Direct_init T2 n2 [((c, A), v)] = Inr \<lparr>value' = v\<rparr>"
    if "is_scalar_v T1" "is_scalar_v T2" "conv (remove_cv_t T1) (remove_cv_t T2)"
    using that sel alias_body_scalar[of T2] declared_operand[OF assms(4)]
    by (simp add: construct_def initialises_def)
  then show ?thesis
    using none conv cm req sel by simp
qed

theorem no_implicit_conversion_between_aliases_witness:
  "alias_body (Class ''Vector3d'' False []) = Selected Inheritance \<and> ''X'' \<noteq> ''Y'' \<and>
   \<not> is_base_of_v (Alias_name ''Y'') (Class ''Vector3d'' False []) \<and>
   declared (STRONG_ALIAS ''X'' (Class ''Vector3d'' False [])) (Class ''Vector3d'' False []) ''X'' \<and>
   viable_ctors Copy_init (Class ''Vector3d'' False []) ''Y''
      [(Lvalue, STRONG_ALIAS ''X'' (Class ''Vector3d'' False []))] = [] \<and>
   select_ctor Direct_init (Class ''Vector3d'' False []) ''Y''
      [(Lvalue, STRONG_ALIAS ''X'' (Class ''Vector3d'' False []))] = Some Variadic_ctor \<and>
   alias_body (Integral ''int'') = Selected Composition \<and> ''A'' \<noteq> ''B'' \<and>
   \<not> is_base_of_v (Alias_name ''B'') (Integral ''int'') \<and>
   declared (Alias (Integral ''int'') ''A'') (Integral ''int'') ''A'' \<and>
   viable_ctors Copy_init (Integral ''int'') ''B'' [(Rvalue, Alias (Integral ''int'') ''A'')] = [] \<and>
   is_scalar_v (Integral ''int'') \<and>
   construct (=) Direct_init (Integral ''int'') ''B''
      [((Rvalue, Alias (Integral ''int'') ''A''), 3::int)] = Inr \<lparr>value' = 3\<rparr>"
proof -
  have b1: "alias_body (Class ''Vector3d'' False []) = Selected Inheritance"
    by (simp add: alias_body_def matching_specialisations_def)
  have d1: "''X'' \<noteq> ''Y''" and d2: "''A'' \<noteq> ''B''" by simp_all
  have n1: "\<not> is_base_of_v (Alias_name ''Y'') (Class ''Vector3d'' False [])" by simp
  have n2: "\<not> is_base_of_v (Alias_name ''B'') (Integral ''int'')" by simp
  have dX: "declared (STRONG_ALIAS ''X'' (Class ''Vector3d'' False []))
              (Class ''Vector3d'' False []) ''X''"
    and dA: "declared (Alias (Integral ''int'') ''A'') (Integral ''int'') ''A''"
    by (simp_all add: declared_def)
  show ?thesis
    using no_implicit_conversion_between_aliases
            [OF b1 d1 n1 dX, where c = Lvalue and conv = "(=)" and v = "0::int"]
          no_implicit_conversion_between_aliases
            [OF int_body d2 n2 dA, where c = Rvalue and conv = "(=)" and v = "3::int"]
          b1 int_body dX dA
    by simp
qed


text \<open>
  The struct that the macro declares constructs from arguments as its base does,
  through the two inherited templates, wherever these are not excluded and there is
  an argument. So \<^verbatim>\<open>B b = a;\<close> has no viable constructor and \<^verbatim>\<open>B b(a);\<close>
  selects the variadic one also when \<open>B\<close> is declared by the macro.
\<close>

lemma struct_ctors_inherited:
  assumes "args \<noteq> []"
      and "\<not> inherited_excluded (STRONG_ALIAS Name T) T Name (map deduce_forwarding args)"
  shows "set (struct_viable_ctors k T Name args)
           = Inherited ` (set (viable_ctors k T Name args) - {Copy_or_move_ctor})"
proof (cases "alias_body T")
  case (Selected b)
  have nc: "\<not> struct_ctor_accepts b T Name Implicit_copy_or_move_ctor (map deduce_forwarding args)"
  proof (cases args)
    case (Cons e es)
    then show ?thesis
      using assms(2)
      by (cases es) (auto simp: inherited_excluded_def STRONG_ALIAS_def)
  qed (use assms(1) in simp)
  show ?thesis
    using Selected assms nc
    by (auto simp: struct_viable_ctors_def viable_ctors_def)
qed (simp_all add: struct_viable_ctors_def viable_ctors_def)

lemma struct_init_from_different_alias:
  assumes "alias_body T2 = Selected b" and "n1 \<noteq> n2"
      and "\<not> is_base_of_v (Alias_name n2) T1" and "declared A T1 n1"
  shows "struct_viable_ctors Copy_init T2 n2 [(c, A)] = []"
    and "struct_select_ctor Direct_init T2 n2 [(c, A)] = Some (Inherited Variadic_ctor)"
proof -
  note dA = declared_facts[OF assms(4)]
  have d: "is_different_alias A n2"
    using assms(4,2,3) by (rule declared_different)
  have nn: "\<not> is_base_of_v (Alias_name n2) (rm_cvref_t (deduce_forwarding (c, A)))"
    using d dA(1) by (simp add: is_different_alias_def rm_cvref_deduced rm_cvref_object)
  then have nb: "\<not> is_base_of_v (Alias T2 n2) (rm_cvref_t (deduce_forwarding (c, A)))"
    using base_alias_carries_name by blast
  then have ne: "\<not> inherited_excluded (STRONG_ALIAS n2 T2) T2 n2 (map deduce_forwarding [(c, A)])"
    by (simp add: inherited_excluded_def)
  have none: "viable_ctors Copy_init T2 n2 [(c, A)] = []"
    using d dA(1) by (rule no_copy_init_from_different)
  have "set (struct_viable_ctors Copy_init T2 n2 [(c, A)]) = {}"
    using struct_ctors_inherited[OF _ ne, of Copy_init] by (simp add: none)
  then show "struct_viable_ctors Copy_init T2 n2 [(c, A)] = []"
    by simp
  have var: "ctor_requires b T2 n2 Variadic_ctor [deduce_forwarding (c, A)]"
    using variadic_accepts_alias[OF assms(1) dA(4,1), of n2 c] assms(1)
    by (auto simp: viable_ctors_def split: if_splits)
  have conv: "\<not> ctor_requires b T2 n2 Converting_ctor [deduce_forwarding (c, A)]"
    using none assms(1) by (auto simp: viable_ctors_def split: if_splits)
  have "rm_cvref_t (deduce_forwarding (c, A)) \<noteq> STRONG_ALIAS n2 T2"
    using nb by (auto simp: STRONG_ALIAS_def)
  then show "struct_select_ctor Direct_init T2 n2 [(c, A)] = Some (Inherited Variadic_ctor)"
    using var conv ne assms(1)
    by (simp add: struct_select_ctor_def struct_viable_ctors_def)
qed


section \<open>Construction from a plain value\<close>

lemma not_alias_not_derived:
  assumes "object_type U" and "\<not> is_alias U"
  shows "\<not> is_base_of_v (Alias T Name) (rm_cvref_t (deduce_forwarding (c, U)))"
  using assms base_alias_carries_name[of T Name "remove_cv_t U"]
  by (auto simp: is_alias_def rm_cvref_deduced rm_cvref_object)

lemma converting_selected:
  assumes "alias_body T = Selected b" and "object_type U" and "\<not> is_alias U"
  shows "select_ctor k T Name [(c, U)] = Some Converting_ctor"
proof -
  have a: "\<not> is_alias (deduce_forwarding (c, U))"
    using assms(2,3) by (simp add: is_alias_deduced)
  have r: "\<not> is_alias (rm_cvref_t (deduce_forwarding (c, U)))"
    using assms(2,3) by (simp add: is_alias_def rm_cvref_deduced rm_cvref_idem_object rm_cvref_object)
  show ?thesis
    using a r not_alias_not_derived[OF assms(2,3), of T Name c] assms(1)
    by (cases b) (simp_all add: select_ctor_def viable_ctors_def)
qed





section \<open>Round trip of a plain value\<close>




section \<open>Default construction\<close>

text \<open>
  Claim C10. For an alias over a scalar \<open>T\<close>, \<^verbatim>\<open>A a;\<close> has one viable
  constructor, the explicit variadic one with an empty pack, and the owned value is
  value-initialised: the implicit conversion of \<open>a\<close> to \<open>T\<close> gives zero.
\<close>

theorem default_construction_zero:
  assumes "is_scalar_v T"
  shows "viable_ctors Direct_init T Name [] = [Variadic_ctor] \<and>
         select_ctor Direct_init T Name [] = Some Variadic_ctor \<and>
         construct conv Direct_init T Name ([] :: (expr \<times> 'v::zero) list) = Inr \<lparr>value' = 0\<rparr> \<and>
         (\<forall>a :: 'v scalar_alias.
            construct conv Direct_init T Name [] = Inr a \<longrightarrow> operator_T a = 0)"
  using alias_body_scalar[OF assms]
  by (simp add: construct_def select_ctor_def viable_ctors_def operator_T_def)

theorem default_construction_zero_witness:
  "is_scalar_v (Pointer (Integral ''int'')) \<and>
   select_ctor Direct_init (Pointer (Integral ''int'')) ''D'' [] = Some Variadic_ctor \<and>
   construct (=) Direct_init (Pointer (Integral ''int'')) ''D'' ([] :: (expr \<times> nat) list)
     = Inr \<lparr>value' = 0\<rparr> \<and>
   (\<exists>a :: int scalar_alias.
      construct (=) Direct_init (Integral ''int'') ''A'' [] = Inr a \<and> operator_T a = 0)"
proof -
  have s: "is_scalar_v (Pointer (Integral ''int''))" and s': "is_scalar_v (Integral ''int'')"
    by simp_all
  show ?thesis
    using default_construction_zero [OF s, where Name = "''D''" and conv = "(=)" and ?'v = nat]
          default_construction_zero [OF s', where Name = "''A''" and conv = "(=)" and ?'v = int] s
    by simp
qed

text \<open>
  The struct that the macro declares is default-constructed by its implicit default
  constructor, which is not explicit and runs the variadic constructor of the base:
  \<^verbatim>\<open>A a;\<close> and \<^verbatim>\<open>A a = {};\<close> both compile and give zero. The specialisation
  \<^verbatim>\<open>alias<T, Name>\<close> itself has the explicit variadic constructor only.
\<close>

lemma struct_default_construction_zero:
  assumes "is_scalar_v T"
  shows "struct_viable_ctors Copy_init T Name [] = [Implicit_default_ctor]"
    and "struct_select_ctor k T Name [] = Some Implicit_default_ctor"
    and "struct_construct conv k T Name ([] :: (expr \<times> 'v::zero) list) = Inr \<lparr>value' = 0\<rparr>"
  using alias_body_scalar[OF assms]
  by (cases k; simp add: struct_construct_def struct_select_ctor_def struct_viable_ctors_def
        inherited_excluded_def)+

section \<open>Exception specifications\<close>

text \<open>
  Claim C8 says that constructing an alias from an lvalue is \<^verbatim>\<open>noexcept\<close> exactly
  when \<open>T\<close> is no-throw copy constructible, and from an rvalue exactly when \<open>T\<close>
  is no-throw move constructible. The code departs from the second half: for
  \<^verbatim>\<open>A a{5}\<close> with \<open>A\<close> over
  \<^verbatim>\<open>int\<close>, whose copy and move construction do not throw, the converting
  constructor is selected with \<^verbatim>\<open>Arg\<close> deduced as \<^verbatim>\<open>int\<close>, which is neither an
  lvalue nor an rvalue reference, and its \<^verbatim>\<open>noexcept\<close> specification is false.
\<close>

theorem rvalue_construction_not_noexcept:
  "construct_noexcept True True Direct_init (Integral ''int'') ''A'' [(Rvalue, Integral ''int'')]
     = Some False"
  by (simp add: construct_noexcept_def select_ctor_def viable_ctors_def int_body is_alias_def
        rm_cvref_t_def)

text \<open>
  The same holds of every rvalue that is not an alias, whatever \<open>T\<close> is; from an
  lvalue, and from an lvalue or rvalue of the alias's own type, the specification
  is that of the copy or move of \<open>T\<close>.
\<close>

lemma noexcept_from_plain_value:
  assumes "alias_body T = Selected b" and "object_type U" and "\<not> is_alias U"
  shows "construct_noexcept nothrow_copy nothrow_move k T Name [(Rvalue, U)] = Some False"
    and "construct_noexcept nothrow_copy nothrow_move k T Name [(Lvalue, U)] = Some nothrow_copy"
  using converting_selected[OF assms] assms(2)
  by (cases U; simp add: construct_noexcept_def)+

lemma noexcept_from_same_alias:
  assumes "alias_body T = Selected b"
  shows "construct_noexcept nothrow_copy nothrow_move Direct_init T Name [(Rvalue, Alias T Name)]
           = Some nothrow_move"
    and "construct_noexcept nothrow_copy nothrow_move Direct_init T Name [(Lvalue, Alias T Name)]
           = Some nothrow_copy"
  using assms
  by (cases b; simp add: construct_noexcept_def select_ctor_def viable_ctors_def is_alias_def
        is_same_alias_def rm_cvref_t_def)+


section \<open>Arithmetic on aliases\<close>

text \<open>
  Claim C6, as stated, fails: with \<^verbatim>\<open>Meters\<close> and \<^verbatim>\<open>Seconds\<close> over
  \<^verbatim>\<open>double\<close>, \<^verbatim>\<open>Meters m{5.0}; Seconds s{2.0}; m + s;\<close> compiles, given no more
  than the built-in addition of two \<^verbatim>\<open>double\<close>s, and its value is the plain
  \<^verbatim>\<open>double\<close> 7. The values 5, 2, 3, 7 and 8 and the sums are exact in
  \<^verbatim>\<open>double\<close>, so real numbers stand for them.
\<close>

theorem arithmetic_of_different_aliases_compiles:
  "binary_expr (\<lambda>op L R. op = Add \<and> L = Floating ''double'' \<and> R = Floating ''double'') Add
     (STRONG_ALIAS ''Meters'' (Floating ''double'')) (STRONG_ALIAS ''Seconds'' (Floating ''double''))
     (+) (Wrapped \<lparr>value' = 5::real\<rparr>) (Wrapped \<lparr>value' = 2\<rparr>) = Inr (Some 7)"
  by (simp add: binary_expr_def resolve_binary_def alias_of_def rm_cvref_t_def double_body
        builtin_candidate_def operator_T_def STRONG_ALIAS_def)

text \<open>
  Claim C6, amended. The header declares no binary arithmetic operator, deleted or
  not. For aliases \<open>A\<close> and \<open>B\<close> over a scalar \<open>T\<close>, of equal or of different
  identities, an arithmetic expression \<^verbatim>\<open>a op b\<close> is the built-in expression on
  the two operands converted to \<open>T\<close>: it compiles when that does, and to the same
  plain value of \<open>T\<close>. An expression with a plain \<open>T\<close> on the left and an alias on
  the right is likewise the built-in one. In the scenario, \<^verbatim>\<open>m + s\<close> compiles and
  is 7; \<^verbatim>\<open>m + n\<close> is 8, \<^verbatim>\<open>Meters{8.0}\<close> holds 8, and
  \<^verbatim>\<open>(m + n) == Meters{8.0}\<close> compiles and is true.
\<close>

theorem arithmetic_through_conversion:
  "(is_scalar_v T \<and> kind_of op = Arithmetic \<and> declared A T nA \<and> declared B T nB \<longrightarrow>
      binary_expr native op A B f (Wrapped a) (Wrapped b)
        = binary_expr native op T T f (Plain (operator_T a)) (Plain (operator_T b))) \<and>
   (is_scalar_v T \<and> declared A T nA \<longrightarrow>
      binary_expr native op T A g (Plain x) (Wrapped a)
        = binary_expr native op T T g (Plain x) (Plain (operator_T a))) \<and>
   binary_expr (\<lambda>op L R. L = Floating ''double'' \<and> R = Floating ''double'') Add
     (STRONG_ALIAS ''Meters'' (Floating ''double'')) (STRONG_ALIAS ''Seconds'' (Floating ''double''))
     (+) (Wrapped \<lparr>value' = 5::real\<rparr>) (Wrapped \<lparr>value' = 2\<rparr>) = Inr (Some 7) \<and>
   binary_expr (\<lambda>op L R. L = Floating ''double'' \<and> R = Floating ''double'') Add
     (STRONG_ALIAS ''Meters'' (Floating ''double'')) (STRONG_ALIAS ''Meters'' (Floating ''double''))
     (+) (Wrapped \<lparr>value' = 5::real\<rparr>) (Wrapped \<lparr>value' = 3\<rparr>) = Inr (Some 8) \<and>
   construct (=) Direct_init (Floating ''double'') ''Meters''
     [((Rvalue, Floating ''double''), 8::real)] = Inr \<lparr>value' = 8\<rparr> \<and>
   binary_expr (\<lambda>op L R. L = Floating ''double'' \<and> R = Floating ''double'') Eq
     (Floating ''double'') (STRONG_ALIAS ''Meters'' (Floating ''double'')) (=)
     (Plain (8::real)) (Wrapped \<lparr>value' = 8\<rparr>) = Inr (Some True)"
proof -
  have r1: "resolve_binary native op A B = resolve_binary native op T T"
    if "is_scalar_v T" "kind_of op = Arithmetic" "declared A T nA" "declared B T nB"
    using that alias_of_scalar[of T] builtin_operand_scalar[of T]
          declared_alias_of[OF that(3) alias_body_scalar] declared_operand[of A T nA]
          declared_operand[of B T nB]
    by (cases op) (simp_all add: resolve_binary_def builtin_candidate_def)
  have r2: "resolve_binary native op T A = resolve_binary native op T T"
    if "is_scalar_v T" "declared A T nA"
    using that alias_of_scalar[of T] builtin_operand_scalar[of T] declared_operand[of A T nA]
    by (simp add: resolve_binary_def builtin_candidate_def)
  have 1: "binary_expr native op A B f (Wrapped a) (Wrapped b)
        = binary_expr native op T T f (Plain (operator_T a)) (Plain (operator_T b))"
    if "is_scalar_v T" "kind_of op = Arithmetic" "declared A T nA" "declared B T nB"
    using r1[OF that] by (simp add: binary_expr_def split: sum.splits selected.splits)
  have 2: "binary_expr native op T A g (Plain x) (Wrapped a)
        = binary_expr native op T T g (Plain x) (Plain (operator_T a))"
    if "is_scalar_v T" "declared A T nA"
    using r2[OF that] by (simp add: binary_expr_def split: sum.splits selected.splits)
  have 3: "binary_expr (\<lambda>op L R. L = Floating ''double'' \<and> R = Floating ''double'') Add
     (STRONG_ALIAS ''Meters'' (Floating ''double'')) (STRONG_ALIAS n (Floating ''double'')) (+)
     (Wrapped \<lparr>value' = 5::real\<rparr>) (Wrapped \<lparr>value' = y\<rparr>) = Inr (Some (5 + y))" for n y
    by (simp add: binary_expr_def resolve_binary_def alias_of_def rm_cvref_t_def double_body
        builtin_candidate_def operator_T_def STRONG_ALIAS_def)
  have 4: "construct (=) Direct_init (Floating ''double'') ''Meters''
     [((Rvalue, Floating ''double''), 8::real)] = Inr \<lparr>value' = 8\<rparr>"
    by (simp add: construct_def select_ctor_def viable_ctors_def double_body is_alias_def
        rm_cvref_t_def initialises_def)
  have 5: "binary_expr (\<lambda>op L R. L = Floating ''double'' \<and> R = Floating ''double'') Eq
     (Floating ''double'') (STRONG_ALIAS ''Meters'' (Floating ''double'')) (=)
     (Plain (8::real)) (Wrapped \<lparr>value' = 8\<rparr>) = Inr (Some True)"
    by (simp add: binary_expr_def resolve_binary_def alias_of_def rm_cvref_t_def double_body
        builtin_candidate_def operator_T_def STRONG_ALIAS_def)
  show ?thesis
    using 1 2 3[of "''Seconds''" 2] 3[of "''Meters''" 3] 4 5 by simp
qed

theorem arithmetic_through_conversion_witness:
  "is_scalar_v (Integral ''int'') \<and> kind_of Mul = Arithmetic \<and>
   declared (STRONG_ALIAS ''A'' (Integral ''int'')) (Integral ''int'') ''A'' \<and>
   declared (Alias (Integral ''int'') ''B'') (Integral ''int'') ''B'' \<and>
   binary_expr (\<lambda>op L R. True) Mul (STRONG_ALIAS ''A'' (Integral ''int''))
     (Alias (Integral ''int'') ''B'') (*) (Wrapped \<lparr>value' = 6::int\<rparr>) (Wrapped \<lparr>value' = 7\<rparr>)
       = Inr (Some 42) \<and>
   binary_expr (\<lambda>op L R. True) Lt (Integral ''int'') (STRONG_ALIAS ''A'' (Integral ''int''))
     (<) (Plain (1::int)) (Wrapped \<lparr>value' = 6::int\<rparr>) = Inr (Some True)"
proof -
  have s: "is_scalar_v (Integral ''int'')" and k: "kind_of Mul = Arithmetic" by simp_all
  have dA: "declared (STRONG_ALIAS ''A'' (Integral ''int'')) (Integral ''int'') ''A''"
    and dB: "declared (Alias (Integral ''int'') ''B'') (Integral ''int'') ''B''"
    by (simp_all add: declared_def)
  have n: "resolve_binary (\<lambda>op L R. True) op (Integral ''int'') (Integral ''int'')
             = Inr (Builtin_operator (Integral ''int'') (Integral ''int''))" for op
    by (simp add: resolve_binary_def alias_of_def rm_cvref_t_def builtin_candidate_def)
  show ?thesis
    using arithmetic_through_conversion
            [where T = "Integral ''int''" and op = Mul and nA = "''A''" and nB = "''B''"
               and A = "STRONG_ALIAS ''A'' (Integral ''int'')" and B = "Alias (Integral ''int'') ''B''"
               and native = "\<lambda>op L R. True" and f = "(*)" and a = "\<lparr>value' = 6::int\<rparr>"
               and b = "\<lparr>value' = 7::int\<rparr>" and g = "(<)" and x = "1::int"]
          arithmetic_through_conversion
            [where T = "Integral ''int''" and op = Lt and nA = "''A''" and nB = "''B''"
               and A = "STRONG_ALIAS ''A'' (Integral ''int'')" and B = "Alias (Integral ''int'') ''B''"
               and native = "\<lambda>op L R. True" and f = "(*)" and a = "\<lparr>value' = 6::int\<rparr>"
               and b = "\<lparr>value' = 7::int\<rparr>" and g = "(<)" and x = "1::int"]
          s k dA dB
    by (simp add: binary_expr_def n operator_T_def)
qed

section \<open>Increment and decrement across the headers\<close>

text \<open>
  Claim C7, as stated, fails for the two earlier headers: there postfix
  \<^verbatim>\<open>++\<close> is declared to return \<^verbatim>\<open>T\<close> and prefix \<^verbatim>\<open>++\<close> to return \<^verbatim>\<open>T&\<close>, and
  on an alias over \<^verbatim>\<open>int\<close> holding 41 they return the plain value 41 and a
  reference to the member \<^verbatim>\<open>value\<close>, not an alias.
\<close>

theorem earlier_headers_return_plain_T:
  "incdec_return_type Part_001 Post_inc (Integral ''int'') ''A'' = Integral ''int'' \<and>
   incdec_return_type Part_001 Pre_inc (Integral ''int'') ''A'' = LRef (Integral ''int'') \<and>
   incdec_expr Part_001 (\<lambda>d. Some (\<lambda>v. v + 1)) Post_inc 0 (\<lambda>p. \<lparr>value' = 41::int\<rparr>)
     = Inr ((\<lambda>p. \<lparr>value' = 41\<rparr>)(0 := \<lparr>value' = 42\<rparr>), Plain_value 41) \<and>
   incdec_expr Part_001 (\<lambda>d. Some (\<lambda>v. v + 1)) Pre_inc 0 (\<lambda>p. \<lparr>value' = 41::int\<rparr>)
     = Inr ((\<lambda>p. \<lparr>value' = 41\<rparr>)(0 := \<lparr>value' = 42\<rparr>), Ref_to_value 0)"
  by (simp add: incdec_expr_def)

text \<open>
  Claim C7, amended. In each header, an increment or decrement expression on a
  composition-body alias is well-formed exactly when \<open>T\<close> supports the operator,
  and it steps the owned value as \<open>T\<close> does. In \<^verbatim>\<open>strong_alias.h\<close> the result is wrapped
  back into the alias: the prefix operators return a reference to the alias itself
  (type \<^verbatim>\<open>alias&\<close>), the postfix operators a new alias holding the value before the
  step (type \<^verbatim>\<open>alias\<close>). In the two earlier headers the prefix operators return a
  reference to the owned value (type \<^verbatim>\<open>T&\<close>) and the postfix operators the plain
  value before the step (type \<^verbatim>\<open>T\<close>).
\<close>

theorem incdec_wrapped_in_last_header:
  "(incdec_expr h T_op d this m = Inl No_matching_function \<longleftrightarrow> T_op d = None) \<and>
   (T_op d = Some f \<and> h = Strong_alias_h \<longrightarrow>
      incdec_expr h T_op d this m
        = Inr (m(this := \<lparr>value' = f (value' (m this))\<rparr>),
               if d = Pre_inc \<or> d = Pre_dec then Ref_to_alias this
               else New_alias \<lparr>value' = value' (m this)\<rparr>) \<and>
      incdec_return_type h d T Name
        = (if d = Pre_inc \<or> d = Pre_dec then LRef (Alias T Name) else Alias T Name)) \<and>
   (T_op d = Some f \<and> h \<noteq> Strong_alias_h \<longrightarrow>
      incdec_expr h T_op d this m
        = Inr (m(this := \<lparr>value' = f (value' (m this))\<rparr>),
               if d = Pre_inc \<or> d = Pre_dec then Ref_to_value this
               else Plain_value (value' (m this))) \<and>
      incdec_return_type h d T Name = (if d = Pre_inc \<or> d = Pre_dec then LRef T else T))"
  by (cases h; cases d; simp add: incdec_expr_def split: option.splits)

theorem incdec_wrapped_in_last_header_witness:
  "incdec_expr Strong_alias_h (\<lambda>d. if d = Pre_inc \<or> d = Post_inc then Some (\<lambda>v. v + 1) else None)
      Post_inc 0 (\<lambda>p. \<lparr>value' = 41::int\<rparr>)
     = Inr ((\<lambda>p. \<lparr>value' = 41\<rparr>)(0 := \<lparr>value' = 42\<rparr>), New_alias \<lparr>value' = 41\<rparr>) \<and>
   incdec_expr Strong_alias_h (\<lambda>d. if d = Pre_inc \<or> d = Post_inc then Some (\<lambda>v. v + 1) else None)
      Pre_inc 0 (\<lambda>p. \<lparr>value' = 41::int\<rparr>)
     = Inr ((\<lambda>p. \<lparr>value' = 41\<rparr>)(0 := \<lparr>value' = 42\<rparr>), Ref_to_alias 0) \<and>
   incdec_expr Strong_alias_h (\<lambda>d. if d = Pre_inc \<or> d = Post_inc then Some (\<lambda>v. v + 1) else None)
      Pre_dec 0 (\<lambda>p. \<lparr>value' = 41::int\<rparr>) = Inl No_matching_function \<and>
   incdec_expr Part_000 (\<lambda>d. if d = Pre_inc \<or> d = Post_inc then Some (\<lambda>v. v + 1) else None)
      Post_inc 0 (\<lambda>p. \<lparr>value' = 41::int\<rparr>)
     = Inr ((\<lambda>p. \<lparr>value' = 41\<rparr>)(0 := \<lparr>value' = 42\<rparr>), Plain_value 41)"
  using incdec_wrapped_in_last_header
          [where h = Strong_alias_h and d = Post_inc and f = "\<lambda>v. v + 1" and this = 0
             and m = "\<lambda>p. \<lparr>value' = 41::int\<rparr>"
             and T_op = "\<lambda>d. if d = Pre_inc \<or> d = Post_inc then Some (\<lambda>v. v + 1) else None"]
        incdec_wrapped_in_last_header
          [where h = Strong_alias_h and d = Pre_inc and f = "\<lambda>v. v + 1" and this = 0
             and m = "\<lambda>p. \<lparr>value' = 41::int\<rparr>"
             and T_op = "\<lambda>d. if d = Pre_inc \<or> d = Post_inc then Some (\<lambda>v. v + 1) else None"]
        incdec_wrapped_in_last_header
          [where h = Strong_alias_h and d = Pre_dec and f = "\<lambda>v. v + 1" and this = 0
             and m = "\<lambda>p. \<lparr>value' = 41::int\<rparr>"
             and T_op = "\<lambda>d. if d = Pre_inc \<or> d = Post_inc then Some (\<lambda>v. v + 1) else None"]
        incdec_wrapped_in_last_header
          [where h = Part_000 and d = Post_inc and f = "\<lambda>v. v + 1" and this = 0
             and m = "\<lambda>p. \<lparr>value' = 41::int\<rparr>"
             and T_op = "\<lambda>d. if d = Pre_inc \<or> d = Post_inc then Some (\<lambda>v. v + 1) else None"]
  by simp


section \<open>The test program of the header\<close>

text \<open>
  The header ends with a test program: a list of statements, each marked as
  compiling or not. The lemmas below evaluate the definitions above on the
  statements that they cover, with the aliases declared by the macro as in the
  program: \<open>A\<close> and \<open>B\<close> over \<^verbatim>\<open>int\<close>, \<open>D\<close> over \<^verbatim>\<open>int*\<close>, \<open>X\<close> and \<open>Y\<close> over
  a class. The outcomes agree with the marks. The last two facts of the third lemma
  are statements that the program marks as not compiling and that the definitions
  leave to the operators of the class.
\<close>

lemma test_program_fundamental:
  fixes A B int8 i :: ctype and native :: "binop \<Rightarrow> ctype \<Rightarrow> ctype \<Rightarrow> bool"
    and widen :: "ctype \<Rightarrow> ctype \<Rightarrow> bool" and m :: "int memory"
  defines "i \<equiv> Integral ''int''" and "int8 \<equiv> Integral ''int8_t''"
    and "A \<equiv> STRONG_ALIAS ''A'' (Integral ''int'')" and "B \<equiv> STRONG_ALIAS ''B'' (Integral ''int'')"
    and "native \<equiv> \<lambda>op L R. L = Integral ''int'' \<and> R = Integral ''int''"
    and "widen \<equiv> \<lambda>U T. U = T \<or> (U = Integral ''int8_t'' \<and> T = Integral ''int'')"
    and "m \<equiv> \<lambda>p. \<lparr>value' = 0\<rparr>"
  shows "struct_construct widen Direct_init i ''A'' ([] :: (expr \<times> int) list) = Inr \<lparr>value' = 0\<rparr>"
    and "struct_construct widen Direct_init i ''A'' [((Rvalue, int8), 42::int)] = Inr \<lparr>value' = 42\<rparr>"
    and "struct_construct widen Direct_init i ''A'' [((Lvalue, A), 0::int)] = Inr \<lparr>value' = 0\<rparr>"
    and "struct_construct widen Copy_init i ''A'' [((Lvalue, A), 0::int)] = Inr \<lparr>value' = 0\<rparr>"
    and "binary_expr native Add A A (+) (Wrapped \<lparr>value' = 0::int\<rparr>) (Wrapped \<lparr>value' = 0::int\<rparr>)
           = Inr (Some 0)"
    and "struct_construct widen Copy_init i ''A'' [((Rvalue, i), 0::int)] = Inr \<lparr>value' = 0\<rparr>"
    and "assign_expr native Add_assign A A (Some (+)) 0 (0::int) m
           = Inr (m(0 := \<lparr>value' = 0\<rparr>), Ref_to_alias 0)"
    and "binary_expr native Eq A A (=) (Wrapped \<lparr>value' = 0::int\<rparr>) (Wrapped \<lparr>value' = 0::int\<rparr>)
           = Inr (Some True)"
    and "binary_expr native Eq A i (=) (Wrapped \<lparr>value' = 0::int\<rparr>) (Plain (1::int))
           = Inr (Some False)"
    and "binary_expr native Add B i (+) (Wrapped \<lparr>value' = 0::int\<rparr>) (Plain (5::int))
           = Inr (Some 5)"
    and "assign_expr native Assign A i (Some (\<lambda>old new. new)) 0 (5::int) m
           = Inr (m(0 := \<lparr>value' = 5\<rparr>), Ref_to_alias 0)"
    and "struct_construct widen Direct_init i ''B'' [((Lvalue, A), 0::int)] = Inr \<lparr>value' = 0\<rparr>"
    and "struct_construct widen Direct_init i ''B'' [((Rvalue, i), 1::int)] = Inr \<lparr>value' = 1\<rparr>"
    and "assign_expr native Add_assign A B (Some (+)) 0 (0::int) m = Inl No_matching_function"
    and "binary_expr native Eq A B (=) (Wrapped \<lparr>value' = 0::int\<rparr>) (Wrapped \<lparr>value' = 0::int\<rparr>)
           = Inl Use_of_deleted_function"
    and "struct_construct widen Copy_init i ''B'' [((Lvalue, A), 0::int)] = Inl No_matching_function"
    and "assign_expr native Assign B A (Some (\<lambda>old new. new)) 0 (0::int) m
           = Inl No_matching_function"
    and "struct_construct widen Copy_init i ''B'' [((Rvalue, A), 0::int)] = Inl No_matching_function"
  unfolding assms
  by (simp_all add: struct_construct_def struct_select_ctor_def struct_viable_ctors_def
        inherited_excluded_def initialises_def int_body
        binary_expr_def assign_expr_def resolve_binary_def alias_of_def builtin_candidate_def
        converts_implicitly_def compound_body_def operator_T_def
        is_alias_def is_same_alias_def is_different_alias_def rm_cvref_t_def STRONG_ALIAS_def)


lemma test_program_pointer:
  fixes D i p :: ctype and native :: "binop \<Rightarrow> ctype \<Rightarrow> ctype \<Rightarrow> bool" and m :: "nat memory"
  defines "i \<equiv> Integral ''int''" and "p \<equiv> Pointer (Integral ''int'')"
    and "D \<equiv> STRONG_ALIAS ''D'' (Pointer (Integral ''int''))"
    and "native \<equiv> \<lambda>op L R. (op = Eq \<or> op = Ne) \<and> L = Pointer (Integral ''int'') \<and> R = Nullptr_t"
    and "m \<equiv> \<lambda>a. \<lparr>value' = 16\<rparr>"
  shows "struct_construct (=) Direct_init p ''D'' [((Rvalue, p), 16::nat)] = Inr \<lparr>value' = 16\<rparr>"
    and "assign_expr native Add_assign D i (Some (\<lambda>a n. a + 4 * n)) 0 (1::nat) m
           = Inr (m(0 := \<lparr>value' = 20\<rparr>), Ref_to_alias 0)"
    and "binary_expr native Eq D Nullptr_t (=) (Wrapped \<lparr>value' = 16::nat\<rparr>) (Plain (0::nat))
           = Inr (Some False)"
    and "binary_expr native Gt D i (>) (Wrapped \<lparr>value' = 16::nat\<rparr>) (Plain (0::nat))
           = Inl No_matching_function"
    and "assign_expr native Mul_assign D i None 0 (1::nat) m = Inl No_matching_function"
  unfolding assms
  by (simp_all add: struct_construct_def struct_select_ctor_def struct_viable_ctors_def
        inherited_excluded_def initialises_def
        alias_body_def matching_specialisations_def
        binary_expr_def assign_expr_def resolve_binary_def alias_of_def builtin_candidate_def
        converts_implicitly_def compound_body_def operator_T_def
        is_alias_def is_same_alias_def is_different_alias_def rm_cvref_t_def STRONG_ALIAS_def)

lemma test_program_class:
  fixes V X Y E :: ctype and native :: "binop \<Rightarrow> ctype \<Rightarrow> ctype \<Rightarrow> bool"
  defines "V \<equiv> Class ''Eigen::Matrix<double,3,1>'' False []"
    and "E \<equiv> Class ''Eigen::CwiseBinaryOp'' False []"
    and "X \<equiv> STRONG_ALIAS ''X'' (Class ''Eigen::Matrix<double,3,1>'' False [])"
    and "Y \<equiv> STRONG_ALIAS ''Y'' (Class ''Eigen::Matrix<double,3,1>'' False [])"
  shows "struct_select_ctor Direct_init V ''X'' [] = Some Implicit_default_ctor"
    and "struct_select_ctor Direct_init V ''X'' [(Rvalue, Floating ''double''),
            (Rvalue, Floating ''double''), (Rvalue, Floating ''double'')] = Some (Inherited Variadic_ctor)"
    and "struct_select_ctor Direct_init V ''X'' [(Lvalue, X)] = Some Implicit_copy_or_move_ctor"
    and "resolve_binary native Assign X X = Inr Copy_or_move_assignment"
    and "resolve_binary native Add_assign X X = Inr Member_operator"
    and "resolve_binary native Eq X X = Inr Member_operator"
    and "resolve_binary native Assign X E = Inr Copy_or_move_assignment"
    and "struct_select_ctor Direct_init V ''Y'' [(Lvalue, X)] = Some (Inherited Variadic_ctor)"
    and "struct_select_ctor Direct_init V ''Y'' [(Rvalue, E)] = Some (Inherited Converting_ctor)"
    and "struct_select_ctor Copy_init V ''Y'' [(Lvalue, X)] = None"
    and "resolve_binary native Assign Y X = Inl No_matching_function"
    and "struct_select_ctor Copy_init V ''Y'' [(Rvalue, X)] = None"
    and "resolve_binary native Add_assign X Y = Inr Operator_of_T"
    and "resolve_binary native Eq X Y = Inr Operator_of_T"
  unfolding assms
  by (simp_all add: struct_select_ctor_def struct_viable_ctors_def inherited_excluded_def
        alias_body_def matching_specialisations_def
        resolve_binary_def alias_of_def builtin_candidate_def
        converts_implicitly_def
        is_alias_def is_same_alias_def is_different_alias_def rm_cvref_t_def STRONG_ALIAS_def)

end
